theory Spec2Isabelle
  imports Complex_Main "HOL-Library.Product_Lexorder"
begin

section \<open>Coach RAG engine: data model (models.py)\<close>

text \<open>
  Python integers are modelled as \<^typ>\<open>int\<close>, \<open>Optional[T]\<close> as \<^typ>\<open>'a option\<close>,
  dictionaries as maps. An exception raised by the source is a value \<open>Inl e\<close> of the
  result type. The metrics and the score of the outcome assessment, where rounding decides
  results, are IEEE binary64 floats with their rounding; the other floats (distances,
  percentages, rates used as sort keys) are only compared and are modelled as
  \<^typ>\<open>real\<close>.
\<close>

datatype CoachPersonality = STRATEGIST | PACER | FINISHER

datatype CoachEnergy = ENERGY_LOW | ENERGY_MEDIUM | ENERGY_HIGH

datatype PaceTrend = IMPROVING | PACE_STABLE | DECLINING | ERRATIC

datatype HRTrend = HR_STABLE | RISING | SPIKING | RECOVERING

datatype FatigueLevel = FATIGUE_NONE | FATIGUE_LOW | MODERATE | FATIGUE_HIGH | SEVERE

datatype TargetStatus = AHEAD | ON_TRACK | SLIGHTLY_BEHIND | WAY_BEHIND

text \<open>The \<open>.value\<close> of each enum member.\<close>

fun pace_trend_value :: "PaceTrend \<Rightarrow> string" where
  "pace_trend_value IMPROVING = ''improving''"
| "pace_trend_value PACE_STABLE = ''stable''"
| "pace_trend_value DECLINING = ''declining''"
| "pace_trend_value ERRATIC = ''erratic''"

fun hr_trend_value :: "HRTrend \<Rightarrow> string" where
  "hr_trend_value HR_STABLE = ''stable''"
| "hr_trend_value RISING = ''rising''"
| "hr_trend_value SPIKING = ''spiking''"
| "hr_trend_value RECOVERING = ''recovering''"

fun fatigue_value :: "FatigueLevel \<Rightarrow> string" where
  "fatigue_value FATIGUE_NONE = ''none''"
| "fatigue_value FATIGUE_LOW = ''low''"
| "fatigue_value MODERATE = ''moderate''"
| "fatigue_value FATIGUE_HIGH = ''high''"
| "fatigue_value SEVERE = ''severe''"

fun target_status_value :: "TargetStatus \<Rightarrow> string" where
  "target_status_value AHEAD = ''ahead''"
| "target_status_value ON_TRACK = ''on_track''"
| "target_status_value SLIGHTLY_BEHIND = ''slightly_behind''"
| "target_status_value WAY_BEHIND = ''way_behind''"

fun personality_value :: "CoachPersonality \<Rightarrow> string" where
  "personality_value STRATEGIST = ''strategist''"
| "personality_value PACER = ''pacer''"
| "personality_value FINISHER = ''finisher''"

fun energy_value :: "CoachEnergy \<Rightarrow> string" where
  "energy_value ENERGY_LOW = ''low''"
| "energy_value ENERGY_MEDIUM = ''medium''"
| "energy_value ENERGY_HIGH = ''high''"

datatype py_error =
    ValueError string
  | ZeroDivisionError
  | AttributeError string
  | KeyError string

text \<open>
  \<open>PerformanceAnalysis\<close>: the performance snapshot. The free-text analysis fields
  (\<open>performance_summary\<close>, \<open>heart_zone_analysis\<close>, \<open>interval_trends\<close>,
  \<open>hr_variation_analysis\<close>, \<open>adaptive_microstrategy\<close>) are never read by the engine's
  decisions and are left out.
\<close>

record PerformanceAnalysis =
  current_pace :: real
  target_pace :: real
  current_distance :: real
  target_distance :: real
  elapsed_time :: real
  current_hr :: "int option"
  average_hr :: "int option"
  max_hr :: "int option"
  current_zone :: "int option"
  zone_percentages :: "int \<rightharpoonup> real"
  pace_trend :: PaceTrend
  hr_trend :: HRTrend
  fatigue_level :: FatigueLevel
  target_status :: TargetStatus
  injury_risk_signals :: "string list"
  pace_deviation :: real
  completed_intervals :: int
  interval_paces :: "real list"

record SituationContext =
  ctx_pace_trend :: PaceTrend
  ctx_hr_trend :: HRTrend
  ctx_fatigue_level :: FatigueLevel
  ctx_target_status :: TargetStatus
  cardiac_drift :: bool
  zone_too_high :: bool
  injury_risk :: bool
  form_breakdown :: bool
  push_possible :: bool
  recovery_needed :: bool
  personality :: CoachPersonality
  energy_level :: CoachEnergy
  situation_tags :: "string list"

text \<open>\<open>SituationContext.build_tags\<close>: the tag list, in the order the source appends.\<close>

definition build_tags :: "SituationContext \<Rightarrow> string list" where
  "build_tags c =
     (if ctx_pace_trend c = DECLINING then [''pace_decline'']
      else if ctx_pace_trend c = PACE_STABLE then [''pace_stable'']
      else if ctx_pace_trend c = IMPROVING then [''pace_improving'']
      else [])
   @ (if ctx_hr_trend c = RISING then [''hr_rising'']
      else if ctx_hr_trend c = HR_STABLE then [''hr_stable'']
      else if ctx_hr_trend c = SPIKING then [''hr_spiking'']
      else [])
   @ (if ctx_target_status c = AHEAD then [''target_ahead'']
      else if ctx_target_status c = ON_TRACK then [''target_on_track'']
      else if ctx_target_status c \<in> {SLIGHTLY_BEHIND, WAY_BEHIND} then [''target_behind'']
      else [])
   @ (if ctx_fatigue_level c = FATIGUE_LOW then [''fatigue_low'']
      else if ctx_fatigue_level c = MODERATE then [''fatigue_moderate'']
      else if ctx_fatigue_level c \<in> {FATIGUE_HIGH, SEVERE} then [''fatigue_high'']
      else [])
   @ (if cardiac_drift c then [''cardiac_drift''] else [])
   @ (if zone_too_high c then [''zone_too_high''] else [])
   @ (if injury_risk c then [''injury_risk''] else [])
   @ (if form_breakdown c then [''form_breakdown''] else [])
   @ (if push_possible c then [''push_possible''] else [])
   @ (if recovery_needed c then [''recovery_needed''] else [])"

section \<open>Situation context builder (engine.py, \<open>_build_situation_context\<close>)\<close>

text \<open>\<open>dict.get(k, 0)\<close> on the zone percentages.\<close>

definition zone_pct :: "PerformanceAnalysis \<Rightarrow> int \<Rightarrow> real" where
  "zone_pct perf z = (case zone_percentages perf z of None \<Rightarrow> 0 | Some v \<Rightarrow> v)"

text \<open>
  The \<open>push_possible\<close> expression, with Python's short-circuit order: the ratio
  \<open>current_hr / max_hr\<close> is evaluated only when fatigue is none/low, the heart-rate trend is
  stable and both heart rates are present; Python's true division raises
  \<open>ZeroDivisionError\<close> on a zero divisor.
\<close>

definition push_possible_expr :: "PerformanceAnalysis \<Rightarrow> py_error + bool" where
  "push_possible_expr perf =
     (if fatigue_level perf \<in> {FATIGUE_NONE, FATIGUE_LOW} then
        (if hr_trend perf = HR_STABLE then
           (case current_hr perf of
              None \<Rightarrow> Inr True
            | Some c \<Rightarrow>
               (case max_hr perf of
                  None \<Rightarrow> Inr True
                | Some m \<Rightarrow>
                   if m = 0 then Inl ZeroDivisionError
                   else Inr (real_of_int c / real_of_int m < 0.85)))
         else Inr False)
      else Inr False)"

definition build_situation_context ::
  "PerformanceAnalysis \<Rightarrow> CoachPersonality \<Rightarrow> CoachEnergy \<Rightarrow> py_error + SituationContext" where
  "build_situation_context perf pers energy =
     (let cd = (pace_trend perf = DECLINING \<and> hr_trend perf \<in> {RISING, SPIKING});
          zone_45_pct = zone_pct perf 4 + zone_pct perf 5;
          zth = (zone_45_pct > 25);
          ir = (length (injury_risk_signals perf) > 0);
          fb = (pace_trend perf = DECLINING \<and> hr_trend perf = HR_STABLE)
      in case push_possible_expr perf of
           Inl e \<Rightarrow> Inl e
         | Inr pp \<Rightarrow>
            (let rn = (fatigue_level perf \<in> {FATIGUE_HIGH, SEVERE} \<or> zth \<or> cd);
                 c = \<lparr> ctx_pace_trend = pace_trend perf,
                       ctx_hr_trend = hr_trend perf,
                       ctx_fatigue_level = fatigue_level perf,
                       ctx_target_status = target_status perf,
                       cardiac_drift = cd,
                       zone_too_high = zth,
                       injury_risk = ir,
                       form_breakdown = fb,
                       push_possible = pp,
                       recovery_needed = rn,
                       personality = pers,
                       energy_level = energy,
                       situation_tags = [] \<rparr>
             in Inr (c\<lparr> situation_tags := build_tags c \<rparr>)))"

section \<open>Distance category and runner level (engine.py)\<close>

definition get_distance_category :: "real \<Rightarrow> string" where
  "get_distance_category target_distance_meters =
     (let target_km = target_distance_meters / 1000 in
      if target_km < 3 then ''casual''
      else if target_km \<le> 5.5 then ''5k''
      else if target_km \<le> 11 then ''10k''
      else if target_km \<le> 22 then ''half''
      else ''full'')"

definition get_runner_level :: "PerformanceAnalysis \<Rightarrow> string" where
  "get_runner_level perf =
     (if pace_trend perf = PACE_STABLE \<and> hr_trend perf = HR_STABLE
         \<and> \<bar>pace_deviation perf\<bar> < 3 then ''advanced''
      else if pace_trend perf = ERRATIC \<or> hr_trend perf = SPIKING
         \<or> \<bar>pace_deviation perf\<bar> > 15 then ''beginner''
      else ''intermediate'')"

section \<open>Engine state and collaborators\<close>

text \<open>
  JSON-like values held in an execution context (\<open>Dict[str, Any]\<close>); \<open>JNull\<close> is
  Python's \<open>None\<close>.
\<close>

datatype json = JNull | JBool bool | JNum real | JStr string | JArr "json list"

text \<open>Python's truth value of such a value.\<close>

fun truthy :: "json \<Rightarrow> bool" where
  "truthy JNull = False"
| "truthy (JBool b) = b"
| "truthy (JNum r) = (r \<noteq> 0)"
| "truthy (JStr s) = (s \<noteq> [])"
| "truthy (JArr xs) = (xs \<noteq> [])"

text \<open>
  One call to an HTTP collaborator: the call raises (connection error, timeout), or it
  returns a status code and a body; the body is \<open>None\<close> when decoding it or reading the
  expected shape out of it raises.
\<close>

datatype 'a http_reply = Raises | Response int "'a option"

record CoachingStrategy =
  cs_id :: string
  cs_strategy_name :: string
  cs_strategy_text :: string
  cs_strategy_context :: "string option"
  cs_tags :: "string list"
  cs_trigger_conditions :: "(string \<times> string) list"
  cs_times_used :: int
  cs_success_rate :: real
  cs_avg_effectiveness_score :: real
  cs_similarity_score :: real
  cs_source :: string

record StrategyExecution =
  ex_id :: "string option"
  ex_user_id :: string
  ex_run_id :: "string option"
  ex_strategy_id :: "string option"
  execution_context :: "string \<rightharpoonup> json"
  strategy_delivered :: string
  outcome_measured :: bool
  was_effective :: "bool option"
  effectiveness_score :: "real option"
  effectiveness_reason :: "string option"
  executed_at :: "nat option"

record AdaptiveStrategyOutput =
  out_strategy_text :: string
  out_strategy_name :: string
  out_situation_summary :: string
  out_selection_reason :: string
  out_source_strategies :: "CoachingStrategy list"
  out_mem0_insights_used :: "string list"
  out_execution_id :: "string option"
  out_confidence_score :: real
  out_priority_tags :: "string list"
  requires_outcome_check :: bool
  out_expected_outcome :: string

text \<open>
  The engine object. The first eight fields are the attributes \<open>__init__\<close> assigns
  (\<open>client_open\<close> stands for \<open>_client\<close> being an open client). The last four are
  attributes the methods read but \<open>__init__\<close> never assigns: \<open>None\<close> means the
  attribute does not exist, and reading it raises \<open>AttributeError\<close>.
\<close>

record CoachRAGEngine =
  supabase_url :: string
  supabase_anon_key :: string
  edge_function_url :: string
  client_open :: bool
  strategy_cache :: "string \<rightharpoonup> CoachingStrategy list"
  cache_ttl :: nat
  cache_timestamps :: "string \<rightharpoonup> nat"
  pending_executions :: "string \<rightharpoonup> StrategyExecution"
  supabase_key :: "string option"
  openai_key :: "string option"
  mem0_api_key :: "string option"
  mem0_base_url :: "string option"

text \<open>\<open>os.getenv(name, "")\<close>.\<close>

definition getenv :: "(string \<rightharpoonup> string) \<Rightarrow> string \<Rightarrow> string" where
  "getenv environ name = (case environ name of None \<Rightarrow> [] | Some v \<Rightarrow> v)"

text \<open>\<open>arg or os.getenv(name, "")\<close>: the argument when it is given and not empty.\<close>

definition arg_or_env :: "string option \<Rightarrow> (string \<rightharpoonup> string) \<Rightarrow> string \<Rightarrow> string" where
  "arg_or_env arg environ name =
     (case arg of
        None \<Rightarrow> getenv environ name
      | Some v \<Rightarrow> if v \<noteq> [] then v else getenv environ name)"

definition CoachRAGEngine_init ::
  "string option \<Rightarrow> string option \<Rightarrow> (string \<rightharpoonup> string) \<Rightarrow> CoachRAGEngine" where
  "CoachRAGEngine_init url_arg key_arg environ =
     (let url = arg_or_env url_arg environ ''SUPABASE_URL'' in
      \<lparr> supabase_url = url,
        supabase_anon_key = arg_or_env key_arg environ ''SUPABASE_ANON_KEY'',
        edge_function_url = url @ ''/functions/v1/coach-rag-strategy'',
        client_open = False,
        strategy_cache = Map.empty,
        cache_ttl = 300,
        cache_timestamps = Map.empty,
        pending_executions = Map.empty,
        supabase_key = None,
        openai_key = None,
        mem0_api_key = None,
        mem0_base_url = None \<rparr>)"

text \<open>\<open>_get_client\<close>: creates the HTTP client when there is none; \<open>close\<close> closes it.\<close>

definition get_client :: "CoachRAGEngine \<Rightarrow> CoachRAGEngine" where
  "get_client eng = eng\<lparr> client_open := True \<rparr>"

definition close_engine :: "CoachRAGEngine \<Rightarrow> CoachRAGEngine" where
  "close_engine eng = eng\<lparr> client_open := False \<rparr>"

section \<open>Main operation (engine.py, \<open>get_adaptive_strategy\<close>)\<close>

text \<open>
  The \<open>strategy\<close> object of the Edge Function's response; a field is \<open>None\<close> when the
  key is absent, and \<open>.get\<close> then yields the default.
\<close>

record edge_strategy =
  es_strategy_text :: "string option"
  es_strategy_name :: "string option"
  es_situation_summary :: "string option"
  es_selection_reason :: "string option"
  es_confidence_score :: "real option"
  es_expected_outcome :: "string option"
  es_execution_id :: "string option"

definition get_or :: "'a option \<Rightarrow> 'a \<Rightarrow> 'a" where
  "get_or v d = (case v of None \<Rightarrow> d | Some x \<Rightarrow> x)"

definition empty_strategy_data :: edge_strategy where
  "empty_strategy_data =
     \<lparr> es_strategy_text = None, es_strategy_name = None, es_situation_summary = None,
       es_selection_reason = None, es_confidence_score = None, es_expected_outcome = None,
       es_execution_id = None \<rparr>"

definition summary_of :: "SituationContext \<Rightarrow> string" where
  "summary_of c =
     pace_trend_value (ctx_pace_trend c) @ '' pace, ''
       @ fatigue_value (ctx_fatigue_level c) @ '' fatigue''"

text \<open>The output built in the \<open>except\<close> branch.\<close>

definition fallback_output :: "SituationContext \<Rightarrow> AdaptiveStrategyOutput" where
  "fallback_output c =
     \<lparr> out_strategy_text = ''Maintain current pace. Stay focused. You're doing well.'',
       out_strategy_name = ''Fallback Strategy'',
       out_situation_summary = summary_of c,
       out_selection_reason = ''Edge Function unavailable'',
       out_source_strategies = [],
       out_mem0_insights_used = [],
       out_execution_id = None,
       out_confidence_score = 0.5,
       out_priority_tags = take 3 (situation_tags c),
       requires_outcome_check = True,
       out_expected_outcome = [] \<rparr>"

text \<open>The output built from a 200 response; \<open>result.get("strategy", {})\<close> is the argument.\<close>

definition edge_output :: "SituationContext \<Rightarrow> edge_strategy option \<Rightarrow> AdaptiveStrategyOutput" where
  "edge_output c strategy =
     (let strategy_data = get_or strategy empty_strategy_data in
      \<lparr> out_strategy_text = get_or (es_strategy_text strategy_data) ''Maintain current effort.'',
        out_strategy_name = get_or (es_strategy_name strategy_data) ''Adaptive Strategy'',
        out_situation_summary = get_or (es_situation_summary strategy_data) (summary_of c),
        out_selection_reason =
          get_or (es_selection_reason strategy_data) ''Best match for current situation'',
        out_source_strategies = [],
        out_mem0_insights_used = [],
        out_execution_id = es_execution_id strategy_data,
        out_confidence_score = get_or (es_confidence_score strategy_data) 0.7,
        out_priority_tags = take 3 (situation_tags c),
        requires_outcome_check = True,
        out_expected_outcome = get_or (es_expected_outcome strategy_data) ''Improved performance'' \<rparr>)"

text \<open>
  \<open>get_adaptive_strategy\<close>. The configuration check comes first and raises; the context
  is built outside the \<open>try\<close>, so an exception of the builder leaves the operation; the
  Edge Function call is inside the \<open>try\<close>, whose handler returns the fallback output.
  The reply of the Edge Function is the last argument.
\<close>

definition get_adaptive_strategy ::
  "CoachRAGEngine \<Rightarrow> PerformanceAnalysis \<Rightarrow> CoachPersonality \<Rightarrow> CoachEnergy \<Rightarrow> string
     \<Rightarrow> string option \<Rightarrow> edge_strategy option http_reply
     \<Rightarrow> (py_error + AdaptiveStrategyOutput) \<times> CoachRAGEngine" where
  "get_adaptive_strategy eng perf pers energy user_id run_id reply =
     (if supabase_url eng = [] \<or> supabase_anon_key eng = [] then
        (Inl (ValueError ''Supabase URL and anon key required for Edge Function''), eng)
      else
        (case build_situation_context perf pers energy of
           Inl e \<Rightarrow> (Inl e, eng)
         | Inr c \<Rightarrow>
            (let eng' = get_client eng in
             case reply of
               Raises \<Rightarrow> (Inr (fallback_output c), eng')
             | Response status body \<Rightarrow>
                (if status = 200 then
                   (case body of
                      None \<Rightarrow> (Inr (fallback_output c), eng')
                    | Some strategy \<Rightarrow> (Inr (edge_output c strategy), eng'))
                 else (Inr (fallback_output c), eng')))))"

section \<open>Execution recording and outcome assessment (engine.py)\<close>

text \<open>The dictionary \<open>_record_execution\<close> stores as the execution context.\<close>

definition opt_num :: "int option \<Rightarrow> json" where
  "opt_num v = (case v of None \<Rightarrow> JNull | Some n \<Rightarrow> JNum (real_of_int n))"

definition recorded_context :: "SituationContext \<Rightarrow> PerformanceAnalysis \<Rightarrow> (string \<rightharpoonup> json)" where
  "recorded_context c perf =
     map_of [(''pace'', JNum (current_pace perf)),
             (''hr'', opt_num (current_hr perf)),
             (''zone'', opt_num (current_zone perf)),
             (''fatigue'', JStr (fatigue_value (ctx_fatigue_level c))),
             (''target_status'', JStr (target_status_value (ctx_target_status c))),
             (''pace_trend'', JStr (pace_trend_value (ctx_pace_trend c))),
             (''hr_trend'', JStr (hr_trend_value (ctx_hr_trend c))),
             (''situation_tags'', JArr (map JStr (situation_tags c)))]"

text \<open>
  \<open>_record_execution\<close>: the only place that stores into the pending executions. The reply
  of the persistence collaborator (the execution id) and the clock are arguments.
\<close>

definition record_execution ::
  "CoachRAGEngine \<Rightarrow> string \<Rightarrow> string option \<Rightarrow> AdaptiveStrategyOutput \<Rightarrow> SituationContext
     \<Rightarrow> PerformanceAnalysis \<Rightarrow> string http_reply \<Rightarrow> nat
     \<Rightarrow> (py_error + AdaptiveStrategyOutput) \<times> CoachRAGEngine" where
  "record_execution eng user_id run_id strategy c perf reply now =
     (if supabase_url eng = [] then (Inr strategy, eng)
      else
        (case supabase_key eng of
           None \<Rightarrow> (Inl (AttributeError ''supabase_key''), eng)
         | Some k \<Rightarrow>
            (if k = [] then (Inr strategy, eng)
             else
               (let eng' = get_client eng;
                    strategy_id =
                      (case out_source_strategies strategy of
                         [] \<Rightarrow> None
                       | s # _ \<Rightarrow>
                          if take 8 (cs_id s) = ''fallback'' then None else Some (cs_id s));
                    ctx = recorded_context c perf
                in case reply of
                     Raises \<Rightarrow> (Inr strategy, eng')
                   | Response status body \<Rightarrow>
                      (if status = 200 then
                         (case body of
                            None \<Rightarrow> (Inr strategy, eng')
                          | Some execution_id \<Rightarrow>
                             (Inr (strategy\<lparr> out_execution_id := Some execution_id \<rparr>),
                              eng'\<lparr> pending_executions := (pending_executions eng')
                                (execution_id \<mapsto>
                                   \<lparr> ex_id = Some execution_id,
                                     ex_user_id = user_id,
                                     ex_run_id = run_id,
                                     ex_strategy_id = strategy_id,
                                     execution_context = ctx,
                                     strategy_delivered = out_strategy_text strategy,
                                     outcome_measured = False,
                                     was_effective = None,
                                     effectiveness_score = None,
                                     effectiveness_reason = None,
                                     executed_at = Some now \<rparr>) \<rparr>))
                       else (Inr strategy, eng'))))))"

text \<open>
  \<open>record_strategy_outcome\<close>. The outcome metrics, the effectiveness flag, score and
  reason are only forwarded in the request, whose reply is the last argument.
\<close>

definition record_strategy_outcome ::
  "CoachRAGEngine \<Rightarrow> string \<Rightarrow> unit http_reply \<Rightarrow> (py_error + bool) \<times> CoachRAGEngine" where
  "record_strategy_outcome eng execution_id reply =
     (if supabase_url eng = [] then (Inr False, eng)
      else
        (case supabase_key eng of
           None \<Rightarrow> (Inl (AttributeError ''supabase_key''), eng)
         | Some k \<Rightarrow>
            (if k = [] then (Inr False, eng)
             else
               (let eng' = get_client eng in
                case reply of
                  Raises \<Rightarrow> (Inr False, eng')
                | Response status body \<Rightarrow>
                   (if status = 200 then
                      (Inr True,
                       eng'\<lparr> pending_executions := (pending_executions eng')(execution_id := None) \<rparr>)
                    else (Inr False, eng'))))))"

subsection \<open>Python floats\<close>

text \<open>
  A Python float is an IEEE 754 binary64 number: a finite value, an infinity or NaN. A
  finite value is a real on the binary64 grid. An arithmetic operation gives the exact
  result rounded to the nearest value of the grid, ties to the even one, and an infinity
  when the rounded result leaves the range. An integer reading of magnitude below
  \<open>2^53\<close> is the same finite value.
\<close>

datatype double = Finite real | PosInf | NegInf | NaN

text \<open>
  The binary exponent \<open>e\<close> of a positive real \<open>x\<close>, with \<open>2^e \<le> x < 2^(e+1)\<close>, found by
  halving or doubling; the fuel covers the whole range of the format.
\<close>

fun binary_exponent :: "nat \<Rightarrow> real \<Rightarrow> int \<Rightarrow> int" where
  "binary_exponent fuel x e =
     (if fuel = 0 then e
      else if x \<ge> 2 then binary_exponent (fuel - 1) (x / 2) (e + 1)
      else if x < 1 then binary_exponent (fuel - 1) (2 * x) (e - 1)
      else e)"

declare binary_exponent.simps [simp del]

text \<open>Below \<open>2^-1022\<close> the grid is that of the subnormal numbers.\<close>

definition double_exponent :: "real \<Rightarrow> int" where
  "double_exponent x = max (- 1022) (min 1024 (binary_exponent 2200 \<bar>x\<bar> 0))"

definition round_half_even :: "real \<Rightarrow> int" where
  "round_half_even q =
     (let f = \<lfloor>q\<rfloor> in
      if q - of_int f < 1 / 2 then f
      else if q - of_int f > 1 / 2 then f + 1
      else if even f then f else f + 1)"

text \<open>\<open>x * 2^k\<close> for an integer \<open>k\<close>.\<close>

definition scale2 :: "real \<Rightarrow> int \<Rightarrow> real" where
  "scale2 x k = (if k \<ge> 0 then x * 2 ^ nat k else x / 2 ^ nat (- k))"

text \<open>Rounding to the grid (53 significant bits), before the range check.\<close>

definition round_finite :: "real \<Rightarrow> real" where
  "round_finite x =
     (if x = 0 then 0
      else (let k = 52 - double_exponent x
            in scale2 (of_int (round_half_even (scale2 x k))) (- k)))"

definition round_double :: "real \<Rightarrow> double" where
  "round_double x =
     (let r = round_finite x in
      if r \<ge> 2 ^ 1024 then PosInf
      else if r \<le> - (2 ^ 1024) then NegInf
      else Finite r)"

text \<open>A decimal literal of the source denotes the nearest double.\<close>

definition lit :: "real \<Rightarrow> real" where
  "lit x = round_finite x"

text \<open>Subtraction, the comparisons \<open><\<close> and \<open>\<le>\<close> (false on NaN) and \<open>abs\<close>.\<close>

fun dsub :: "double \<Rightarrow> double \<Rightarrow> double" where
  "dsub (Finite x) (Finite y) = round_double (x - y)"
| "dsub NaN y = NaN"
| "dsub x NaN = NaN"
| "dsub PosInf PosInf = NaN"
| "dsub NegInf NegInf = NaN"
| "dsub PosInf y = PosInf"
| "dsub NegInf y = NegInf"
| "dsub (Finite x) PosInf = NegInf"
| "dsub (Finite x) NegInf = PosInf"

fun dlt :: "double \<Rightarrow> double \<Rightarrow> bool" where
  "dlt (Finite x) (Finite y) = (x < y)"
| "dlt NaN y = False"
| "dlt x NaN = False"
| "dlt PosInf y = False"
| "dlt x NegInf = False"
| "dlt NegInf y = True"
| "dlt (Finite x) PosInf = True"

fun dle :: "double \<Rightarrow> double \<Rightarrow> bool" where
  "dle (Finite x) (Finite y) = (x \<le> y)"
| "dle NaN y = False"
| "dle x NaN = False"
| "dle NegInf y = True"
| "dle x PosInf = True"
| "dle PosInf y = False"
| "dle (Finite x) NegInf = False"

fun dabs :: "double \<Rightarrow> double" where
  "dabs (Finite x) = Finite \<bar>x\<bar>"
| "dabs PosInf = PosInf"
| "dabs NegInf = PosInf"
| "dabs NaN = NaN"

subsection \<open>The assessment\<close>

text \<open>\<open>metrics.get(key, 0)\<close> on a dictionary of floats.\<close>

definition metric :: "(string \<rightharpoonup> double) \<Rightarrow> string \<Rightarrow> double" where
  "metric m k = (case m k of None \<Rightarrow> Finite 0 | Some v \<Rightarrow> v)"

text \<open>\<open>sep.join(xs)\<close>.\<close>

fun join :: "string \<Rightarrow> string list \<Rightarrow> string" where
  "join sep [] = []"
| "join sep [x] = x"
| "join sep (x # y # ys) = x @ sep @ join sep (y # ys)"

text \<open>
  The three blocks of \<open>assess_strategy_effectiveness\<close>, each updating the triple
  (\<open>was_effective\<close>, \<open>score\<close>, \<open>reasons\<close>) as the source does. The score is a finite
  float throughout (it starts at 0.5 and grows by at most 0.7), so \<open>score += 0.3\<close> is the
  rounded sum.
\<close>

definition pace_block ::
  "(string \<rightharpoonup> json) \<Rightarrow> (string \<rightharpoonup> double) \<Rightarrow> (string \<rightharpoonup> double)
     \<Rightarrow> bool \<times> real \<times> string list \<Rightarrow> bool \<times> real \<times> string list" where
  "pace_block ctx before_metrics after_metrics st =
     (case st of (eff, score, reasons) \<Rightarrow>
        (let pace_before = metric before_metrics ''pace'';
             pace_after = metric after_metrics ''pace''
         in if dlt (Finite 0) pace_before \<and> dlt (Finite 0) pace_after then
              (let pace_change = dsub pace_after pace_before in
               if ctx ''target_status''
                    \<in> {Some (JStr ''slightly_behind''), Some (JStr ''way_behind'')} then
                 (if dlt pace_change (Finite (- lit 0.05))
                  then (True, round_finite (score + lit 0.3), reasons @ [''Pace improved''])
                  else (eff, score, reasons))
               else if ctx ''fatigue'' \<in> {Some (JStr ''high''), Some (JStr ''severe'')} then
                 (if dlt (dabs pace_change) (Finite (lit 0.1))
                  then (True, round_finite (score + lit 0.2),
                        reasons @ [''Pace stabilized during recovery''])
                  else (eff, score, reasons))
               else (eff, score, reasons))
            else (eff, score, reasons)))"

definition hr_block ::
  "(string \<rightharpoonup> json) \<Rightarrow> (string \<rightharpoonup> double) \<Rightarrow> (string \<rightharpoonup> double)
     \<Rightarrow> bool \<times> real \<times> string list \<Rightarrow> bool \<times> real \<times> string list" where
  "hr_block ctx before_metrics after_metrics st =
     (case st of (eff, score, reasons) \<Rightarrow>
        (let hr_before = metric before_metrics ''hr'';
             hr_after = metric after_metrics ''hr''
         in if dlt (Finite 0) hr_before \<and> dlt (Finite 0) hr_after then
              (let hr_change = dsub hr_after hr_before in
               if ctx ''hr_trend'' \<in> {Some (JStr ''rising''), Some (JStr ''spiking'')} then
                 (if dlt hr_change (Finite 3)
                  then (True, round_finite (score + lit 0.2), reasons @ [''HR stabilized''])
                  else (eff, score, reasons))
               else (eff, score, reasons))
            else (eff, score, reasons)))"

definition zone_block ::
  "(string \<rightharpoonup> json) \<Rightarrow> (string \<rightharpoonup> double) \<Rightarrow> (string \<rightharpoonup> double)
     \<Rightarrow> bool \<times> real \<times> string list \<Rightarrow> bool \<times> real \<times> string list" where
  "zone_block ctx before_metrics after_metrics st =
     (case st of (eff, score, reasons) \<Rightarrow>
        (let zone_before = metric before_metrics ''zone'';
             zone_after = metric after_metrics ''zone''
         in if (case ctx ''zone_too_high'' of None \<Rightarrow> False | Some v \<Rightarrow> truthy v) then
              (if dlt zone_after zone_before
               then (True, round_finite (score + lit 0.2), reasons @ [''Moved to lower zone''])
               else (eff, score, reasons))
            else (eff, score, reasons)))"

text \<open>The scoring of a found execution: the three blocks, the cap and the reason.\<close>

definition assess_context ::
  "(string \<rightharpoonup> json) \<Rightarrow> (string \<rightharpoonup> double) \<Rightarrow> (string \<rightharpoonup> double)
     \<Rightarrow> bool \<times> real \<times> string" where
  "assess_context ctx before_metrics after_metrics =
     (case zone_block ctx before_metrics after_metrics
             (hr_block ctx before_metrics after_metrics
                (pace_block ctx before_metrics after_metrics (False, 0.5, []))) of
        (eff, score, reasons) \<Rightarrow>
          (eff, min 1 (max 0 score),
           if reasons \<noteq> [] then join ''; '' reasons
           else ''No significant improvement detected''))"

text \<open>
  \<open>assess_strategy_effectiveness\<close>: an unknown id returns the not-found triple before
  anything else; a found execution is scored, the outcome is recorded (an exception of
  \<open>record_strategy_outcome\<close> leaves the operation) and the triple is returned.
\<close>

definition assess_strategy_effectiveness ::
  "CoachRAGEngine \<Rightarrow> unit http_reply \<Rightarrow> string \<Rightarrow> (string \<rightharpoonup> double)
     \<Rightarrow> (string \<rightharpoonup> double) \<Rightarrow> (py_error + bool \<times> real \<times> string) \<times> CoachRAGEngine" where
  "assess_strategy_effectiveness eng reply execution_id before_metrics after_metrics =
     (case pending_executions eng execution_id of
        None \<Rightarrow> (Inr (False, 0, ''Execution not found''), eng)
      | Some execution \<Rightarrow>
         (let res = assess_context (execution_context execution) before_metrics after_metrics
          in case record_strategy_outcome eng execution_id reply of
               (Inl e, eng') \<Rightarrow> (Inl e, eng')
             | (Inr recorded, eng') \<Rightarrow> (Inr res, eng')))"

section \<open>Condition reranker (engine.py, \<open>_llm_match_conditions\<close>)\<close>

text \<open>
  A candidate as the knowledge base returns it (a dictionary); optional keys are read with
  \<open>.get\<close> and a default. \<open>kb_match_score\<close> and \<open>kb_match_reason\<close> are the keys the
  reranker adds.
\<close>

record kb_strategy =
  kb_id :: string
  kb_title :: string
  kb_strategy_text :: string
  kb_conditions_to_use :: string
  kb_when_not_to_use :: string
  kb_tags :: "string list option"
  kb_times_used :: "int option"
  kb_success_rate :: "real option"
  kb_avg_effectiveness_score :: "real option"
  kb_similarity :: "real option"
  kb_match_score :: "real option"
  kb_match_reason :: "string option"

text \<open>One match result of the collaborator's answer.\<close>

record match_entry =
  m_id :: "string option"
  m_match :: "bool option"
  m_match_score :: "real option"
  m_reason :: "string option"

text \<open>
  The message content after the code-fence handling, as \<open>json.loads\<close> sees it: not JSON,
  a bare array of match results, an object (with its \<open>matches\<close> list when it has one),
  or any other JSON value.
\<close>

datatype llm_content =
    NotJson
  | JsonArray "match_entry list"
  | JsonObject "match_entry list option"
  | JsonScalar

text \<open>
  \<open>sorted(xs, key=key, reverse=True)\<close>: descending, and stable (elements with equal
  keys keep their order).
\<close>

definition sorted_desc :: "('a \<Rightarrow> 'k::linorder) \<Rightarrow> 'a list \<Rightarrow> 'a list" where
  "sorted_desc key xs = rev (sort_key key (rev xs))"

definition rate_key :: "kb_strategy \<Rightarrow> real \<times> int" where
  "rate_key s = (get_or (kb_success_rate s) 0, get_or (kb_times_used s) 0)"

definition match_key :: "kb_strategy \<Rightarrow> real \<times> real \<times> int" where
  "match_key s =
     (get_or (kb_match_score s) 0, get_or (kb_success_rate s) 0, get_or (kb_times_used s) 0)"

text \<open>The fallback ranking: top 8 by (success_rate, times_used).\<close>

definition fallback_rank :: "kb_strategy list \<Rightarrow> kb_strategy list" where
  "fallback_rank kb_strategies = take 8 (sorted_desc rate_key kb_strategies)"

text \<open>
  The dictionary comprehension \<open>{m["id"]: m for m in matches if m.get("match", False)}\<close>:
  a later entry replaces an earlier one with the same id; a matching entry without an id
  raises \<open>KeyError\<close>.
\<close>

fun match_lookup ::
  "match_entry list \<Rightarrow> (string \<rightharpoonup> match_entry) \<Rightarrow> py_error + (string \<rightharpoonup> match_entry)" where
  "match_lookup [] acc = Inr acc"
| "match_lookup (m # ms) acc =
     (if get_or (m_match m) False then
        (case m_id m of
           None \<Rightarrow> Inl (KeyError ''id'')
         | Some i \<Rightarrow> match_lookup ms (acc(i \<mapsto> m)))
      else match_lookup ms acc)"

text \<open>The loop that keeps the matched candidates and attaches score and reason.\<close>

fun attach_matches :: "(string \<rightharpoonup> match_entry) \<Rightarrow> kb_strategy list \<Rightarrow> kb_strategy list" where
  "attach_matches lookup [] = []"
| "attach_matches lookup (s # ss) =
     (case lookup (kb_id s) of
        None \<Rightarrow> attach_matches lookup ss
      | Some match_info \<Rightarrow>
          s\<lparr> kb_match_score := Some (get_or (m_match_score match_info) 0.7),
             kb_match_reason := Some (get_or (m_reason match_info) []) \<rparr>
          # attach_matches lookup ss)"

text \<open>
  \<open>_llm_match_conditions\<close>. The first statement reads \<open>self.openai_key\<close>. In the
  200 branch, \<open>parsed.get("matches", [])\<close> raises \<open>AttributeError\<close> on anything but an
  object; only \<open>json.JSONDecodeError\<close> is handled by the inner \<open>try\<close>, every other
  exception by the outer one, and both handlers return the fallback ranking. For an object
  without \<open>matches\<close> the content is parsed again, gives the same object, which is not a
  list, and the matches stay empty.
\<close>

definition llm_match_conditions ::
  "CoachRAGEngine \<Rightarrow> kb_strategy list \<Rightarrow> llm_content http_reply \<Rightarrow> py_error + kb_strategy list" where
  "llm_match_conditions eng kb_strategies reply =
     (case openai_key eng of
        None \<Rightarrow> Inl (AttributeError ''openai_key'')
      | Some k \<Rightarrow>
         (if k = [] \<or> kb_strategies = [] then Inr (fallback_rank kb_strategies)
          else
            (case reply of
               Raises \<Rightarrow> Inr (fallback_rank kb_strategies)
             | Response status body \<Rightarrow>
                (if status = 200 then
                   (case body of
                      None \<Rightarrow> Inr (fallback_rank kb_strategies)
                    | Some NotJson \<Rightarrow> Inr (fallback_rank kb_strategies)
                    | Some (JsonArray ms) \<Rightarrow> Inr (fallback_rank kb_strategies)
                    | Some JsonScalar \<Rightarrow> Inr (fallback_rank kb_strategies)
                    | Some (JsonObject ms) \<Rightarrow>
                       (case match_lookup (get_or ms []) Map.empty of
                          Inl e \<Rightarrow> Inr (fallback_rank kb_strategies)
                        | Inr lookup \<Rightarrow>
                           Inr (take 8 (sorted_desc match_key
                                          (attach_matches lookup kb_strategies)))))
                 else Inr (fallback_rank kb_strategies)))))"

section \<open>Strategy retrieval (engine.py, \<open>_retrieve_strategies\<close>)\<close>

text \<open>The calls retrieval makes to the retrieval collaborator, with their parameters.\<close>

datatype retrieval_call =
    VectorSearch string string real nat
  | KbQuery string string nat

record collaborators =
  vector_reply :: "kb_strategy list http_reply"
  kb_reply :: "kb_strategy list http_reply"
  llm_reply :: "llm_content http_reply"

definition static_strategy :: "string \<Rightarrow> string \<Rightarrow> string \<Rightarrow> string list \<Rightarrow> CoachingStrategy" where
  "static_strategy i name txt tags =
     \<lparr> cs_id = i, cs_strategy_name = name, cs_strategy_text = txt,
       cs_strategy_context = None, cs_tags = tags, cs_trigger_conditions = [],
       cs_times_used = 0, cs_success_rate = 0, cs_avg_effectiveness_score = 0,
       cs_similarity_score = 0, cs_source = ''fallback'' \<rparr>"

definition get_fallback_strategies :: "SituationContext \<Rightarrow> CoachingStrategy list" where
  "get_fallback_strategies c =
     (let strategies =
        (if cardiac_drift c then
           [static_strategy ''fallback-1'' ''Cardiac Drift Management''
              ''Classic drift pattern. Ease 15 sec/km for next 500m. Focus on efficiency, not speed.''
              [''cardiac_drift'', ''hr_rising'', ''pace_decline'']]
         else [])
        @ (if ctx_pace_trend c = DECLINING then
             [static_strategy ''fallback-2'' ''Cadence Reset''
                ''Quick feet, light steps. Count to 180. Shorten stride, find your rhythm.''
                [''pace_decline'', ''form_breakdown'']]
           else [])
        @ (if ctx_fatigue_level c \<in> {FATIGUE_HIGH, SEVERE} then
             [static_strategy ''fallback-3'' ''Active Recovery''
                ''Next 500m: easy pace, Zone 2. Shake out arms, breathe deep. Recharge.''
                [''fatigue_high'', ''recovery_needed'']]
           else [])
        @ (if injury_risk c then
             [static_strategy ''fallback-4'' ''Injury Prevention''
                ''Warning signs detected. Ease pace immediately. Shorter strides, land softly.''
                [''injury_risk'']]
           else [])
      in if strategies = [] then
           [static_strategy ''fallback-default'' ''Maintain Pace''
              ''Hold current pace. Stay in Zone 3. Steady breathing. You're doing well.''
              [''pace_stable'']]
         else strategies)"

text \<open>\<open>_generate_embedding\<close>: a stub that returns \<open>None\<close> whatever the text.\<close>

definition generate_embedding :: "string \<Rightarrow> real list option" where
  "generate_embedding txt = None"

text \<open>Python's truth value of an optional embedding.\<close>

definition embedding_given :: "real list option \<Rightarrow> bool" where
  "embedding_given emb = (case emb of None \<Rightarrow> False | Some v \<Rightarrow> v \<noteq> [])"

text \<open>
  \<open>_query_kb_fallback\<close>: the non-vector query. Everything is inside its \<open>try\<close>; reading a
  \<open>supabase_key\<close> attribute that does not exist raises before the call is made.
\<close>

definition query_kb_fallback ::
  "CoachRAGEngine \<Rightarrow> string \<Rightarrow> string \<Rightarrow> nat \<Rightarrow> kb_strategy list http_reply
     \<Rightarrow> kb_strategy list \<times> retrieval_call list" where
  "query_kb_fallback eng distance_category runner_level limit reply =
     (case supabase_key eng of
        None \<Rightarrow> ([], [])
      | Some k \<Rightarrow>
         (case reply of
            Raises \<Rightarrow> []
          | Response status body \<Rightarrow>
             (if status = 200 then (case body of None \<Rightarrow> [] | Some kb \<Rightarrow> kb) else []),
          [KbQuery distance_category runner_level limit]))"

definition to_coaching_strategy :: "real list option \<Rightarrow> kb_strategy \<Rightarrow> CoachingStrategy" where
  "to_coaching_strategy emb s =
     \<lparr> cs_id = kb_id s,
       cs_strategy_name = kb_title s,
       cs_strategy_text = kb_strategy_text s,
       cs_strategy_context =
         Some (''Use when: '' @ kb_conditions_to_use s @ ''. Avoid when: '' @ kb_when_not_to_use s),
       cs_tags = get_or (kb_tags s) [],
       cs_trigger_conditions =
         [(''conditions_to_use'', kb_conditions_to_use s),
          (''when_not_to_use'', kb_when_not_to_use s)],
       cs_times_used = get_or (kb_times_used s) 0,
       cs_success_rate = get_or (kb_success_rate s) 0,
       cs_avg_effectiveness_score = get_or (kb_avg_effectiveness_score s) 0,
       cs_similarity_score = get_or (kb_match_score s) (get_or (kb_similarity s) 0.7),
       cs_source = (if embedding_given emb then ''kb_vector'' else ''kb'') \<rparr>"

text \<open>
  The part of the \<open>try\<close> block after the candidates are known: no candidates give the static
  strategies; an exception of the reranker is caught and gives them too.
\<close>

definition refine_candidates ::
  "CoachRAGEngine \<Rightarrow> SituationContext \<Rightarrow> real list option \<Rightarrow> collaborators
     \<Rightarrow> kb_strategy list \<Rightarrow> CoachingStrategy list" where
  "refine_candidates eng c emb collab kb_strategies =
     (if kb_strategies = [] then get_fallback_strategies c
      else
        (case llm_match_conditions eng kb_strategies (llm_reply collab) of
           Inl e \<Rightarrow> get_fallback_strategies c
         | Inr matched \<Rightarrow> map (to_coaching_strategy emb) matched))"

text \<open>The \<open>try\<close> block of \<open>_retrieve_strategies\<close>, for a given embedding.\<close>

definition retrieve_with_embedding ::
  "CoachRAGEngine \<Rightarrow> SituationContext \<Rightarrow> string \<Rightarrow> string \<Rightarrow> real list option
     \<Rightarrow> collaborators \<Rightarrow> CoachingStrategy list \<times> retrieval_call list" where
  "retrieve_with_embedding eng c distance_category runner_level emb collab =
     (if embedding_given emb then
        (let search = VectorSearch distance_category runner_level 0.65 15 in
         case vector_reply collab of
           Raises \<Rightarrow> (get_fallback_strategies c, [search])
         | Response status body \<Rightarrow>
            (if status = 200 then
               (case body of
                  None \<Rightarrow> (get_fallback_strategies c, [search])
                | Some kb \<Rightarrow>
                   (if kb \<noteq> [] then (refine_candidates eng c emb collab kb, [search])
                    else
                      (case query_kb_fallback eng distance_category runner_level 15
                              (kb_reply collab) of
                         (kb', calls) \<Rightarrow>
                           (refine_candidates eng c emb collab kb', search # calls))))
             else
               (case query_kb_fallback eng distance_category runner_level 15
                       (kb_reply collab) of
                  (kb', calls) \<Rightarrow>
                    (refine_candidates eng c emb collab kb', search # calls))))
      else
        (case query_kb_fallback eng distance_category runner_level 15 (kb_reply collab) of
           (kb', calls) \<Rightarrow> (refine_candidates eng c emb collab kb', calls)))"

text \<open>
  \<open>_retrieve_strategies\<close>. The situation description is formatted text that only goes to
  the collaborators; its builder is the argument \<open>describe\<close>. The result is the candidate
  list with the retrieval calls made, or the exception of the first statement.
\<close>

definition retrieve_strategies ::
  "CoachRAGEngine \<Rightarrow> SituationContext \<Rightarrow> string \<Rightarrow> PerformanceAnalysis
     \<Rightarrow> (SituationContext \<Rightarrow> PerformanceAnalysis \<Rightarrow> string) \<Rightarrow> collaborators
     \<Rightarrow> py_error + CoachingStrategy list \<times> retrieval_call list" where
  "retrieve_strategies eng c user_id perf describe collab =
     (if supabase_url eng = [] then Inr (get_fallback_strategies c, [])
      else
        (case supabase_key eng of
           None \<Rightarrow> Inl (AttributeError ''supabase_key'')
         | Some k \<Rightarrow>
            (if k = [] then Inr (get_fallback_strategies c, [])
             else
               (let distance_category = get_distance_category (target_distance perf);
                    runner_level = get_runner_level perf;
                    situation_description = describe c perf;
                    situation_embedding = generate_embedding situation_description
                in Inr (retrieve_with_embedding eng c distance_category runner_level
                          situation_embedding collab)))))"

section \<open>Memory fetcher (engine.py, \<open>_fetch_mem0_coaching_memories\<close>)\<close>

text \<open>One result of the memory search; a field is \<open>None\<close> when the key is absent.\<close>

record mem0_result =
  r_id :: "string option"
  r_memory :: "string option"
  r_category :: "string option"
  r_score :: "real option"

record Mem0CoachingMemory =
  memory_id :: string
  memory_text :: string
  category :: string
  relevance_score :: real
  what_worked :: "string option"
  what_didnt_work :: "string option"
  runner_preference :: "string option"

text \<open>\<open>str.lower\<close> on ASCII letters, and the substring test \<open>needle in text\<close>.\<close>

definition lower_char :: "char \<Rightarrow> char" where
  "lower_char ch =
     (let n = (of_char ch :: nat) in if 65 \<le> n \<and> n \<le> 90 then char_of (n + 32) else ch)"

fun starts_with :: "string \<Rightarrow> string \<Rightarrow> bool" where
  "starts_with [] txt = True"
| "starts_with (x # xs) [] = False"
| "starts_with (x # xs) (y # ys) = (x = y \<and> starts_with xs ys)"

fun contains :: "string \<Rightarrow> string \<Rightarrow> bool" where
  "contains needle [] = (needle = [])"
| "contains needle (y # ys) = (starts_with needle (y # ys) \<or> contains needle ys)"

definition to_memory :: "mem0_result \<Rightarrow> Mem0CoachingMemory" where
  "to_memory r =
     (let memory_txt = get_or (r_memory r) [];
          txt = map lower_char memory_txt
      in \<lparr> memory_id = get_or (r_id r) [],
           memory_text = memory_txt,
           category = get_or (r_category r) ''general'',
           relevance_score = get_or (r_score r) 0,
           what_worked =
             (if contains ''worked'' txt \<or> contains ''effective'' txt \<or> contains ''helped'' txt
              then Some memory_txt else None),
           what_didnt_work =
             (if contains ''didn't work'' txt \<or> contains ''ineffective'' txt
                 \<or> contains ''failed'' txt
              then Some memory_txt else None),
           runner_preference =
             (if contains ''prefers'' txt \<or> contains ''likes'' txt
                 \<or> contains ''responds to'' txt
              then Some memory_txt else None) \<rparr>)"

text \<open>
  The loop over the queries, inside the \<open>try\<close>: a call that raises (or a 200 body that
  cannot be read) ends the loop with the memories collected so far; a call with another
  status is skipped.
\<close>

fun fetch_queries ::
  "(string \<Rightarrow> mem0_result list http_reply) \<Rightarrow> string list \<Rightarrow> Mem0CoachingMemory list
     \<Rightarrow> Mem0CoachingMemory list" where
  "fetch_queries search [] memories = memories"
| "fetch_queries search (query # queries) memories =
     (case search query of
        Raises \<Rightarrow> memories
      | Response status body \<Rightarrow>
         (if status = 200 then
            (case body of
               None \<Rightarrow> memories
             | Some results \<Rightarrow> fetch_queries search queries (memories @ map to_memory results))
          else fetch_queries search queries memories))"

text \<open>The deduplication by memory text: the first occurrence stays.\<close>

fun unique_by_text :: "string list \<Rightarrow> Mem0CoachingMemory list \<Rightarrow> Mem0CoachingMemory list" where
  "unique_by_text seen [] = []"
| "unique_by_text seen (m # ms) =
     (if memory_text m \<in> set seen then unique_by_text seen ms
      else m # unique_by_text (memory_text m # seen) ms)"

definition memory_queries :: "SituationContext \<Rightarrow> string list" where
  "memory_queries c =
     [''coaching strategies that worked well'',
      pace_trend_value (ctx_pace_trend c) @ '' pace coaching'',
      fatigue_value (ctx_fatigue_level c) @ '' fatigue running advice'',
      ''what motivates this runner'',
      ''running form cues that helped'']"

text \<open>
  \<open>_fetch_mem0_coaching_memories\<close>. The first statement reads \<open>self.mem0_api_key\<close>,
  outside the \<open>try\<close>; \<open>self.mem0_base_url\<close> is read inside it, for the first request.
  The collaborator's reply to each query is the argument \<open>search\<close>.
\<close>

definition fetch_mem0_coaching_memories ::
  "CoachRAGEngine \<Rightarrow> string \<Rightarrow> SituationContext \<Rightarrow> (string \<Rightarrow> mem0_result list http_reply)
     \<Rightarrow> py_error + Mem0CoachingMemory list" where
  "fetch_mem0_coaching_memories eng user_id c search =
     (case mem0_api_key eng of
        None \<Rightarrow> Inl (AttributeError ''mem0_api_key'')
      | Some k \<Rightarrow>
         (if k = [] then Inr []
          else
            (let memories =
                   (case mem0_base_url eng of
                      None \<Rightarrow> []
                    | Some base \<Rightarrow> fetch_queries search (take 3 (memory_queries c)) [])
             in Inr (take 5 (unique_by_text [] (sorted_desc relevance_score memories))))))"

section \<open>Reference rules, reachable states and concrete inputs\<close>

text \<open>What the recorded context says about the situation at delivery time.\<close>

definition target_was_behind :: "(string \<rightharpoonup> json) \<Rightarrow> bool" where
  "target_was_behind ctx =
     (ctx ''target_status'' = Some (JStr ''slightly_behind'')
      \<or> ctx ''target_status'' = Some (JStr ''way_behind''))"

definition fatigue_was_high :: "(string \<rightharpoonup> json) \<Rightarrow> bool" where
  "fatigue_was_high ctx =
     (ctx ''fatigue'' = Some (JStr ''high'') \<or> ctx ''fatigue'' = Some (JStr ''severe''))"

definition hr_was_rising :: "(string \<rightharpoonup> json) \<Rightarrow> bool" where
  "hr_was_rising ctx =
     (ctx ''hr_trend'' = Some (JStr ''rising'') \<or> ctx ''hr_trend'' = Some (JStr ''spiking''))"

definition zone_was_too_high :: "(string \<rightharpoonup> json) \<Rightarrow> bool" where
  "zone_was_too_high ctx = (case ctx ''zone_too_high'' of None \<Rightarrow> False | Some v \<Rightarrow> truthy v)"

text \<open>Adding a bonus to the score when its condition holds, in float arithmetic.\<close>

definition add_if :: "bool \<Rightarrow> real \<Rightarrow> real \<Rightarrow> real" where
  "add_if cond amount score = (if cond then round_finite (score + lit amount) else score)"

definition zone_lowered ::
  "(string \<rightharpoonup> json) \<Rightarrow> (string \<rightharpoonup> double) \<Rightarrow> (string \<rightharpoonup> double) \<Rightarrow> bool" where
  "zone_lowered ctx before_metrics after_metrics =
     (zone_was_too_high ctx
      \<and> dlt (metric after_metrics ''zone'') (metric before_metrics ''zone''))"

text \<open>
  The reference rule as the specification words it: four conditions, each contributing
  independently of the others (pace decreased by at least 0.05; absolute pace change under
  0.1; heart-rate change under 3; zone lower), the score capped to the unit interval.
\<close>

definition reference_pace_improved ::
  "(string \<rightharpoonup> json) \<Rightarrow> (string \<rightharpoonup> double) \<Rightarrow> (string \<rightharpoonup> double) \<Rightarrow> bool" where
  "reference_pace_improved ctx before_metrics after_metrics =
     (target_was_behind ctx
      \<and> dle (Finite (lit 0.05))
             (dsub (metric before_metrics ''pace'') (metric after_metrics ''pace'')))"

definition reference_pace_stabilized ::
  "(string \<rightharpoonup> json) \<Rightarrow> (string \<rightharpoonup> double) \<Rightarrow> (string \<rightharpoonup> double) \<Rightarrow> bool" where
  "reference_pace_stabilized ctx before_metrics after_metrics =
     (fatigue_was_high ctx
      \<and> dlt (dabs (dsub (metric after_metrics ''pace'') (metric before_metrics ''pace'')))
             (Finite (lit 0.1)))"

definition reference_hr_stabilized ::
  "(string \<rightharpoonup> json) \<Rightarrow> (string \<rightharpoonup> double) \<Rightarrow> (string \<rightharpoonup> double) \<Rightarrow> bool" where
  "reference_hr_stabilized ctx before_metrics after_metrics =
     (hr_was_rising ctx
      \<and> dlt (dsub (metric after_metrics ''hr'') (metric before_metrics ''hr'')) (Finite 3))"

definition reference_assessment ::
  "(string \<rightharpoonup> json) \<Rightarrow> (string \<rightharpoonup> double) \<Rightarrow> (string \<rightharpoonup> double) \<Rightarrow> bool \<times> real" where
  "reference_assessment ctx b a =
     (reference_pace_improved ctx b a \<or> reference_pace_stabilized ctx b a
        \<or> reference_hr_stabilized ctx b a \<or> zone_lowered ctx b a,
      min 1 (max 0
        (add_if (zone_lowered ctx b a) 0.2
           (add_if (reference_hr_stabilized ctx b a) 0.2
              (add_if (reference_pace_stabilized ctx b a) 0.2
                 (add_if (reference_pace_improved ctx b a) 0.3 0.5))))))"

text \<open>
  The rule as amended: the pace conditions need both paces positive, the float difference
  after - before must be below -0.05, the fatigue condition counts only when the target
  was not behind, and the heart-rate condition needs both heart rates positive. The score
  is summed in floats in the order pace, heart rate, zone; the reason joins the labels of
  the conditions that hold.
\<close>

definition amended_pace_improved ::
  "(string \<rightharpoonup> json) \<Rightarrow> (string \<rightharpoonup> double) \<Rightarrow> (string \<rightharpoonup> double) \<Rightarrow> bool" where
  "amended_pace_improved ctx before_metrics after_metrics =
     (dlt (Finite 0) (metric before_metrics ''pace'')
      \<and> dlt (Finite 0) (metric after_metrics ''pace'')
      \<and> target_was_behind ctx
      \<and> dlt (dsub (metric after_metrics ''pace'') (metric before_metrics ''pace''))
             (Finite (- lit 0.05)))"

definition amended_pace_stabilized ::
  "(string \<rightharpoonup> json) \<Rightarrow> (string \<rightharpoonup> double) \<Rightarrow> (string \<rightharpoonup> double) \<Rightarrow> bool" where
  "amended_pace_stabilized ctx before_metrics after_metrics =
     (dlt (Finite 0) (metric before_metrics ''pace'')
      \<and> dlt (Finite 0) (metric after_metrics ''pace'')
      \<and> \<not> target_was_behind ctx \<and> fatigue_was_high ctx
      \<and> dlt (dabs (dsub (metric after_metrics ''pace'') (metric before_metrics ''pace'')))
             (Finite (lit 0.1)))"

definition amended_hr_stabilized ::
  "(string \<rightharpoonup> json) \<Rightarrow> (string \<rightharpoonup> double) \<Rightarrow> (string \<rightharpoonup> double) \<Rightarrow> bool" where
  "amended_hr_stabilized ctx before_metrics after_metrics =
     (dlt (Finite 0) (metric before_metrics ''hr'')
      \<and> dlt (Finite 0) (metric after_metrics ''hr'')
      \<and> hr_was_rising ctx
      \<and> dlt (dsub (metric after_metrics ''hr'') (metric before_metrics ''hr'')) (Finite 3))"

definition amended_labels ::
  "(string \<rightharpoonup> json) \<Rightarrow> (string \<rightharpoonup> double) \<Rightarrow> (string \<rightharpoonup> double) \<Rightarrow> string list" where
  "amended_labels ctx b a =
     (if amended_pace_improved ctx b a then [''Pace improved''] else [])
     @ (if amended_pace_stabilized ctx b a then [''Pace stabilized during recovery''] else [])
     @ (if amended_hr_stabilized ctx b a then [''HR stabilized''] else [])
     @ (if zone_lowered ctx b a then [''Moved to lower zone''] else [])"

definition amended_assessment ::
  "(string \<rightharpoonup> json) \<Rightarrow> (string \<rightharpoonup> double) \<Rightarrow> (string \<rightharpoonup> double)
     \<Rightarrow> bool \<times> real \<times> string" where
  "amended_assessment ctx b a =
     (amended_pace_improved ctx b a \<or> amended_pace_stabilized ctx b a
        \<or> amended_hr_stabilized ctx b a \<or> zone_lowered ctx b a,
      min 1 (max 0
        (add_if (zone_lowered ctx b a) 0.2
           (add_if (amended_hr_stabilized ctx b a) 0.2
              (add_if (amended_pace_stabilized ctx b a) 0.2
                 (add_if (amended_pace_improved ctx b a) 0.3 0.5))))),
      if amended_labels ctx b a \<noteq> [] then join ''; '' (amended_labels ctx b a)
      else ''No significant improvement detected'')"

text \<open>
  States of the engine reached from the constructor through the public operations:
  \<open>get_adaptive_strategy\<close>, \<open>record_strategy_outcome\<close>,
  \<open>assess_strategy_effectiveness\<close>, \<open>close\<close>, and
  \<open>generate_and_store_kb_embeddings\<close>, whose only effect on the engine is to open the
  client. \<open>_record_execution\<close> is not among them: no public operation calls it.
\<close>

inductive reachable :: "CoachRAGEngine \<Rightarrow> bool" where
  constructed: "reachable (CoachRAGEngine_init url_arg key_arg environ)"
| delivered:
    "reachable eng \<Longrightarrow>
     reachable (snd (get_adaptive_strategy eng perf pers energy user_id run_id reply))"
| outcome_recorded:
    "reachable eng \<Longrightarrow> reachable (snd (record_strategy_outcome eng execution_id oreply))"
| assessed:
    "reachable eng \<Longrightarrow>
     reachable (snd (assess_strategy_effectiveness eng oreply execution_id b a))"
| client_opened: "reachable eng \<Longrightarrow> reachable (get_client eng)"
| closed: "reachable eng \<Longrightarrow> reachable (close_engine eng)"

text \<open>Concrete inputs.\<close>

text \<open>A snapshot with default optional fields, as the dataclass defaults give it.\<close>

definition snapshot_default :: PerformanceAnalysis where
  "snapshot_default =
     \<lparr> current_pace = 6, target_pace = 6, current_distance = 2000, target_distance = 5000,
       elapsed_time = 720, current_hr = None, average_hr = None, max_hr = None,
       current_zone = None, zone_percentages = Map.empty,
       pace_trend = PACE_STABLE, hr_trend = HR_STABLE, fatigue_level = FATIGUE_NONE,
       target_status = ON_TRACK, injury_risk_signals = [], pace_deviation = 0,
       completed_intervals = 0, interval_paces = [] \<rparr>"

text \<open>The same snapshot with a heart-rate reading and a maximum heart rate of zero.\<close>

definition snapshot_zero_max_hr :: PerformanceAnalysis where
  "snapshot_zero_max_hr = snapshot_default\<lparr> current_hr := Some 150, max_hr := Some 0 \<rparr>"

definition engine_constructed :: CoachRAGEngine where
  "engine_constructed =
     CoachRAGEngine_init (Some ''https://project.supabase.co'') (Some ''anon-key'') Map.empty"

text \<open>
  Engines on which \<open>supabase_key\<close> or \<open>openai_key\<close> was assigned after construction.
\<close>

definition engine_with_service_key :: CoachRAGEngine where
  "engine_with_service_key = engine_constructed\<lparr> supabase_key := Some ''service-key'' \<rparr>"

definition snapshot_behind_tired :: PerformanceAnalysis where
  "snapshot_behind_tired =
     snapshot_default\<lparr> target_status := SLIGHTLY_BEHIND, fatigue_level := FATIGUE_HIGH \<rparr>"

definition context_behind_tired :: SituationContext where
  "context_behind_tired =
     \<lparr> ctx_pace_trend = PACE_STABLE, ctx_hr_trend = HR_STABLE,
       ctx_fatigue_level = FATIGUE_HIGH, ctx_target_status = SLIGHTLY_BEHIND,
       cardiac_drift = False, zone_too_high = False, injury_risk = False,
       form_breakdown = False, push_possible = False, recovery_needed = True,
       personality = STRATEGIST, energy_level = ENERGY_MEDIUM,
       situation_tags = [''pace_stable'', ''hr_stable'', ''target_behind'', ''fatigue_high'',
                         ''recovery_needed''] \<rparr>"

text \<open>The engine after \<open>_record_execution\<close> stored an execution for that context.\<close>

definition engine_with_pending :: CoachRAGEngine where
  "engine_with_pending =
     snd (record_execution engine_with_service_key ''user-1'' None
            (fallback_output context_behind_tired) context_behind_tired snapshot_behind_tired
            (Response 200 (Some ''exec-1'')) 0)"

definition steady_metrics :: "string \<rightharpoonup> double" where
  "steady_metrics = map_of [(''pace'', Finite 6), (''hr'', Finite 150), (''zone'', Finite 3)]"

text \<open>Metric dictionaries with the paces the literals 5.4, 5.35, 0.1 and 0.05 denote.\<close>

definition pace_metrics :: "real \<Rightarrow> string \<rightharpoonup> double" where
  "pace_metrics p = map_of [(''pace'', Finite (lit p))]"

text \<open>A recorded context with high fatigue and a rising heart rate, the target on track.\<close>

definition context_tired_rising :: "string \<rightharpoonup> json" where
  "context_tired_rising =
     map_of [(''fatigue'', JStr ''high''), (''target_status'', JStr ''on_track''),
             (''hr_trend'', JStr ''rising'')]"

definition strategy_with_execution_id :: edge_strategy where
  "strategy_with_execution_id =
     empty_strategy_data\<lparr> es_strategy_text := Some ''Ease off for 500m.'',
                           es_execution_id := Some ''exec-1'' \<rparr>"

text \<open>
  What the specification asks of a list of match results, whatever its wrapping: keep
  the candidates whose id appears with match = true, attach score and reason, sort by
  (match_score, success_rate, times_used) descending, keep the top 8.
\<close>

definition rerank_with_matches :: "match_entry list \<Rightarrow> kb_strategy list \<Rightarrow> kb_strategy list" where
  "rerank_with_matches ms kb_strategies =
     (case match_lookup ms Map.empty of
        Inl e \<Rightarrow> fallback_rank kb_strategies
      | Inr lookup \<Rightarrow> take 8 (sorted_desc match_key (attach_matches lookup kb_strategies)))"

text \<open>
  The cache check of the specification: an entry for the key, stored at most \<open>cache_ttl\<close>
  seconds before \<open>now\<close>.
\<close>

definition cache_hit :: "CoachRAGEngine \<Rightarrow> string \<Rightarrow> nat \<Rightarrow> CoachingStrategy list option" where
  "cache_hit eng key now =
     (case (strategy_cache eng key, cache_timestamps eng key) of
        (Some cached, Some stored) \<Rightarrow>
          if stored \<le> now \<and> now - stored \<le> cache_ttl eng then Some cached else None
      | _ \<Rightarrow> None)"

definition candidate :: "string \<Rightarrow> real \<Rightarrow> int \<Rightarrow> kb_strategy" where
  "candidate i rate used =
     \<lparr> kb_id = i, kb_title = ''Strategy '' @ i, kb_strategy_text = ''Ease off.'',
       kb_conditions_to_use = ''pace declining'', kb_when_not_to_use = ''injury'',
       kb_tags = None, kb_times_used = Some used, kb_success_rate = Some rate,
       kb_avg_effectiveness_score = None, kb_similarity = None,
       kb_match_score = None, kb_match_reason = None \<rparr>"

definition bare_array_answer :: "match_entry list" where
  "bare_array_answer =
     [\<lparr> m_id = Some ''a'', m_match = Some True, m_match_score = Some 0.9,
        m_reason = Some ''conditions apply'' \<rparr>,
      \<lparr> m_id = Some ''b'', m_match = Some False, m_match_score = Some 0.1,
        m_reason = Some ''conditions do not apply'' \<rparr>]"

definition engine_with_openai_key :: CoachRAGEngine where
  "engine_with_openai_key = engine_constructed\<lparr> openai_key := Some ''sk-test'' \<rparr>"

definition two_candidates :: "kb_strategy list" where
  "two_candidates = [candidate ''a'' 0.2 3, candidate ''b'' 0.8 10]"

definition cached_strategy :: CoachingStrategy where
  "cached_strategy =
     (static_strategy ''kb-17'' ''Negative Split'' ''Hold back now, push the last third.''
        [''pace_stable''])\<lparr> cs_source := ''kb'' \<rparr>"

text \<open>
  An engine whose cache holds the same list under every key, stored at time 1000: whichever
  key a request would use (the source never builds one), the entry is there.
\<close>

definition engine_with_cache :: CoachRAGEngine where
  "engine_with_cache =
     engine_with_service_key\<lparr> strategy_cache := (\<lambda>key. Some [cached_strategy]),
                               cache_timestamps := (\<lambda>key. Some 1000) \<rparr>"

definition failing_collaborators :: collaborators where
  "failing_collaborators = \<lparr> vector_reply = Raises, kb_reply = Raises, llm_reply = Raises \<rparr>"

definition plain_description :: "SituationContext \<Rightarrow> PerformanceAnalysis \<Rightarrow> string" where
  "plain_description c perf = summary_of c"

definition context_default :: SituationContext where
  "context_default =
     \<lparr> ctx_pace_trend = PACE_STABLE, ctx_hr_trend = HR_STABLE,
       ctx_fatigue_level = FATIGUE_NONE, ctx_target_status = ON_TRACK,
       cardiac_drift = False, zone_too_high = False, injury_risk = False,
       form_breakdown = False, push_possible = True, recovery_needed = False,
       personality = STRATEGIST, energy_level = ENERGY_MEDIUM,
       situation_tags = [''pace_stable'', ''hr_stable'', ''target_on_track'',
                         ''push_possible''] \<rparr>"

section \<open>Properties\<close>

text \<open>
  C9. The distance category is a total function of the target distance with exactly the
  five values casual, 5k, 10k, half, full; each value is taken on one interval and the
  intervals do not overlap: below 3000 m casual, from 3000 m up to and including 5500 m
  5k, above 5500 m up to 11000 m 10k, above 11000 m up to 22000 m half, above that full.
  In particular 5500 m is 5k and 5501 m is 10k.
\<close>

theorem distance_category_partition:
  "get_distance_category d \<in> {''casual'', ''5k'', ''10k'', ''half'', ''full''}
   \<and> (get_distance_category d = ''casual'') = (d < 3000)
   \<and> (get_distance_category d = ''5k'') = (3000 \<le> d \<and> d \<le> 5500)
   \<and> (get_distance_category d = ''10k'') = (5500 < d \<and> d \<le> 11000)
   \<and> (get_distance_category d = ''half'') = (11000 < d \<and> d \<le> 22000)
   \<and> (get_distance_category d = ''full'') = (22000 < d)
   \<and> get_distance_category 5500 = ''5k''
   \<and> get_distance_category 5501 = ''10k''"
  by (simp add: get_distance_category_def Let_def)

text \<open>
  C5. The context builder does not succeed on every snapshot: with fatigue none, a stable
  heart-rate trend, a current heart rate of 150 and a maximum heart rate of 0 the ratio
  current/max is a division by zero and the builder raises instead of returning a context.
\<close>

theorem build_situation_context_zero_max_hr:
  "build_situation_context snapshot_zero_max_hr STRATEGIST ENERGY_MEDIUM = Inl ZeroDivisionError"
  by (simp add: build_situation_context_def push_possible_expr_def snapshot_zero_max_hr_def
      snapshot_default_def zone_pct_def)

text \<open>
  What holds of the builder: it raises exactly on a zero maximum heart rate that reaches
  the ratio, and the context it returns otherwise has \<open>push_possible\<close> as specified.
\<close>

lemma build_situation_context_raises_iff:
  "(build_situation_context perf pers energy = Inl ZeroDivisionError)
   = (fatigue_level perf \<in> {FATIGUE_NONE, FATIGUE_LOW} \<and> hr_trend perf = HR_STABLE
      \<and> current_hr perf \<noteq> None \<and> max_hr perf = Some 0)"
  by (auto simp: build_situation_context_def push_possible_expr_def Let_def
      split: option.splits)

lemma build_situation_context_push_possible:
  "build_situation_context perf pers energy = Inr c \<Longrightarrow>
     push_possible c
     = (fatigue_level perf \<in> {FATIGUE_NONE, FATIGUE_LOW} \<and> hr_trend perf = HR_STABLE
        \<and> (current_hr perf = None \<or> max_hr perf = None
            \<or> real_of_int (the (current_hr perf)) / real_of_int (the (max_hr perf)) < 0.85))"
  by (auto simp: build_situation_context_def push_possible_expr_def Let_def
      split: option.splits if_splits)

lemma pace_block_code:
  "pace_block ctx b a (e, s, rs) =
     (e \<or> amended_pace_improved ctx b a \<or> amended_pace_stabilized ctx b a,
      add_if (amended_pace_stabilized ctx b a) 0.2 (add_if (amended_pace_improved ctx b a) 0.3 s),
      rs @ (if amended_pace_improved ctx b a then [''Pace improved''] else [])
         @ (if amended_pace_stabilized ctx b a then [''Pace stabilized during recovery'']
            else []))"
  unfolding pace_block_def amended_pace_improved_def amended_pace_stabilized_def add_if_def
    target_was_behind_def fatigue_was_high_def Let_def
  by auto

lemma hr_block_code:
  "hr_block ctx b a (e, s, rs) =
     (e \<or> amended_hr_stabilized ctx b a, add_if (amended_hr_stabilized ctx b a) 0.2 s,
      rs @ (if amended_hr_stabilized ctx b a then [''HR stabilized''] else []))"
  unfolding hr_block_def amended_hr_stabilized_def add_if_def hr_was_rising_def Let_def
  by auto

lemma zone_block_code:
  "zone_block ctx b a (e, s, rs) =
     (e \<or> zone_lowered ctx b a, add_if (zone_lowered ctx b a) 0.2 s,
      rs @ (if zone_lowered ctx b a then [''Moved to lower zone''] else []))"
  unfolding zone_block_def zone_lowered_def add_if_def zone_was_too_high_def Let_def
  by auto

lemma assess_context_amended: "assess_context ctx b a = amended_assessment ctx b a"
  unfolding assess_context_def pace_block_code hr_block_code zone_block_code
    amended_assessment_def amended_labels_def
  by simp

lemma assess_context_bounds:
  "assess_context ctx b a = (e, s, r) \<Longrightarrow> 0 \<le> s \<and> s \<le> 1"
  unfolding assess_context_def
  by (cases "zone_block ctx b a (hr_block ctx b a (pace_block ctx b a (False, 0.5, [])))")
     auto

lemma record_strategy_outcome_cases:
  "fst (record_strategy_outcome eng x reply) = Inl e \<Longrightarrow>
     e = AttributeError ''supabase_key'' \<and> supabase_url eng \<noteq> [] \<and> supabase_key eng = None"
  by (auto simp: record_strategy_outcome_def Let_def
      split: if_splits option.splits http_reply.splits)

lemma record_strategy_outcome_returns:
  "supabase_url eng = [] \<or> supabase_key eng \<noteq> None \<Longrightarrow>
     \<exists>ok. fst (record_strategy_outcome eng x reply) = Inr ok"
  by (auto simp: record_strategy_outcome_def Let_def
      split: if_splits option.splits http_reply.splits)

lemma record_strategy_outcome_raises:
  "supabase_url eng \<noteq> [] \<Longrightarrow> supabase_key eng = None \<Longrightarrow>
     fst (record_strategy_outcome eng x reply) = Inl (AttributeError ''supabase_key'')"
  by (simp add: record_strategy_outcome_def)

text \<open>The doubles the literals of the source denote, and the float sums of the score.\<close>

lemmas float_eval =
  lit_def round_double_def round_finite_def double_exponent_def binary_exponent.simps
  round_half_even_def scale2_def Let_def

lemma lit_values:
  "lit (1 / 20) = 3602879701896397 / 72057594037927936"
  "lit (1 / 10) = 3602879701896397 / 36028797018963968"
  "lit (1 / 5) = 3602879701896397 / 18014398509481984"
  "lit (3 / 10) = 5404319552844595 / 18014398509481984"
  "lit (27 / 5) = 3039929748475085 / 562949953421312"
  "lit (107 / 20) = 3011782250804019 / 562949953421312"
  by (simp_all add: float_eval)

lemma float_sums:
  "round_finite (1 / 2 + 5404319552844595 / 18014398509481984)
     = 3602879701896397 / 4503599627370496"
  "round_finite (1 / 2 + 3602879701896397 / 18014398509481984)
     = 3152519739159347 / 4503599627370496"
  "round_finite (3152519739159347 / 4503599627370496 + 3602879701896397 / 18014398509481984)
     = 2026619832316723 / 2251799813685248"
  by (simp_all add: float_eval)

lemma float_differences:
  "round_double 0 = Finite 0"
  "round_double (3011782250804019 / 562949953421312 - 3039929748475085 / 562949953421312)
     = Finite (- (14073748835533 / 281474976710656))"
  "round_double (3602879701896397 / 72057594037927936 - 3602879701896397 / 36028797018963968)
     = Finite (- (3602879701896397 / 72057594037927936))"
  by (simp_all add: float_eval)

text \<open>
  The float arithmetic at work. For the paces 0.1 and 0.05 the difference is exactly the
  double -0.05, which is not below -0.05: nothing is added. With the fatigue and the
  heart-rate condition both holding the score is 0.5 + 0.2 + 0.2 in floats, which is
  0.8999999999999999.
\<close>

lemma assess_context_exact_threshold:
  "assess_context (recorded_context context_behind_tired snapshot_behind_tired)
     (pace_metrics 0.1) (pace_metrics 0.05)
   = (False, 0.5, ''No significant improvement detected'')"
  by (simp add: assess_context_def pace_block_def hr_block_def zone_block_def
      recorded_context_def context_behind_tired_def pace_metrics_def metric_def
      float_eval)

lemma assess_context_float_sum:
  "assess_context context_tired_rising steady_metrics steady_metrics
   = (True, 2026619832316723 / 2251799813685248,
      ''Pace stabilized during recovery; HR stabilized'')"
  by (simp add: assess_context_def pace_block_def hr_block_def zone_block_def
      context_tired_rising_def steady_metrics_def metric_def
      float_eval)

text \<open>
  C1 (as amended). \<open>assess_strategy_effectiveness\<close> returns the not-found triple for an id
  that is not pending. For an id present in the pending store, with whatever context is
  recorded for it, and every before/after metric pair, it raises when recording the
  outcome reads a \<open>supabase_key\<close> attribute that does not exist, and otherwise returns:
  the score, capped to [0, 1], that starts at 0.5 and gains, summed in float arithmetic in
  this order, 0.3 if both paces are positive, the recorded target status was
  slightly_behind/way_behind and the float difference after - before of the paces is
  below -0.05; 0.2 if both paces are positive, the target status was not behind, the
  recorded fatigue was high/severe and the absolute float difference of the paces is
  under 0.1; 0.2 if both heart rates are positive, the recorded heart-rate trend was
  rising/spiking and the float difference of the heart rates is under 3; 0.2 if the
  context holds a true \<open>zone_too_high\<close> and the after zone is lower than the before zone;
  \<open>was_effective\<close>, true exactly when one of these conditions contributed; and the
  reason, the labels of the contributing conditions joined.
\<close>

theorem assess_amended_rule:
  "fst (assess_strategy_effectiveness eng reply execution_id b a) =
     (case pending_executions eng execution_id of
        None \<Rightarrow> Inr (False, 0, ''Execution not found'')
      | Some execution \<Rightarrow>
          if supabase_url eng \<noteq> [] \<and> supabase_key eng = None
          then Inl (AttributeError ''supabase_key'')
          else Inr (amended_assessment (execution_context execution) b a))"
proof (cases "pending_executions eng execution_id")
  case None
  then show ?thesis by (simp add: assess_strategy_effectiveness_def)
next
  case (Some execution)
  show ?thesis
  proof (cases "supabase_url eng \<noteq> [] \<and> supabase_key eng = None")
    case True
    then have "fst (record_strategy_outcome eng execution_id reply)
                 = Inl (AttributeError ''supabase_key'')"
      by (simp add: record_strategy_outcome_raises)
    with Some True show ?thesis
      by (cases "record_strategy_outcome eng execution_id reply")
         (simp add: assess_strategy_effectiveness_def)
  next
    case False
    then have "supabase_url eng = [] \<or> supabase_key eng \<noteq> None" by auto
    then obtain ok where "fst (record_strategy_outcome eng execution_id reply) = Inr ok"
      using record_strategy_outcome_returns by blast
    with Some False show ?thesis
      by (cases "record_strategy_outcome eng execution_id reply")
         (auto simp: assess_strategy_effectiveness_def assess_context_amended)
  qed
qed

text \<open>
  The context \<open>_record_execution\<close> stores has no \<open>zone_too_high\<close> key, so for an
  execution it recorded the zone condition cannot hold.
\<close>

lemma recorded_context_no_zone_flag:
  "recorded_context c perf ''zone_too_high'' = None
   \<and> \<not> zone_lowered (recorded_context c perf) b a"
  by (simp add: recorded_context_def zone_lowered_def zone_was_too_high_def)

lemma context_behind_tired_eq:
  "build_situation_context snapshot_behind_tired STRATEGIST ENERGY_MEDIUM =
     Inr context_behind_tired"
  by (simp add: context_behind_tired_def build_situation_context_def push_possible_expr_def
      snapshot_behind_tired_def snapshot_default_def build_tags_def zone_pct_def Let_def)

lemma engine_with_pending_entry:
  "pending_executions engine_with_pending ''exec-1'' =
     Some \<lparr> ex_id = Some ''exec-1'', ex_user_id = ''user-1'', ex_run_id = None,
            ex_strategy_id = None,
            execution_context = recorded_context context_behind_tired snapshot_behind_tired,
            strategy_delivered = ''Maintain current pace. Stay focused. You're doing well.'',
            outcome_measured = False, was_effective = None, effectiveness_score = None,
            effectiveness_reason = None, executed_at = Some 0 \<rparr>
   \<and> supabase_key engine_with_pending = Some ''service-key''
   \<and> supabase_url engine_with_pending = ''https://project.supabase.co''"
  by (simp add: engine_with_pending_def record_execution_def engine_with_service_key_def
      engine_constructed_def CoachRAGEngine_init_def arg_or_env_def get_client_def
      fallback_output_def Let_def)

lemma recorded_context_behind_tired:
  "recorded_context context_behind_tired snapshot_behind_tired ''target_status''
     = Some (JStr ''slightly_behind'')"
  "recorded_context context_behind_tired snapshot_behind_tired ''fatigue''
     = Some (JStr ''high'')"
  "recorded_context context_behind_tired snapshot_behind_tired ''hr_trend''
     = Some (JStr ''stable'')"
  "recorded_context context_behind_tired snapshot_behind_tired ''zone_too_high'' = None"
  by (simp_all add: recorded_context_def context_behind_tired_def)

lemma steady_metrics_values:
  "metric steady_metrics ''pace'' = Finite 6"
  "metric steady_metrics ''hr'' = Finite 150"
  "metric steady_metrics ''zone'' = Finite 3"
  by (simp_all add: metric_def steady_metrics_def)

text \<open>
  C1 as stated fails. The context recorded for a runner slightly behind target with high
  fatigue, and an unchanged pace of 6: the reference rule counts the fatigue condition on
  its own and gives True with the score 0.5 + 0.2 (the double 0.7); the source tests the
  fatigue condition only in the \<open>elif\<close> of the target-status test, so nothing contributes
  and it returns (False, 0.5). No public operation fills the pending store, so the entry is
  written by \<open>_record_execution\<close> on an engine whose \<open>supabase_key\<close> was assigned after
  construction.
\<close>

theorem assess_reference_rule_counterexample:
  "build_situation_context snapshot_behind_tired STRATEGIST ENERGY_MEDIUM
     = Inr context_behind_tired
   \<and> fst (assess_strategy_effectiveness engine_with_pending (Response 200 (Some ())) ''exec-1''
          steady_metrics steady_metrics)
     = Inr (False, 0.5, ''No significant improvement detected'')
   \<and> reference_assessment (recorded_context context_behind_tired snapshot_behind_tired)
          steady_metrics steady_metrics
     = (True, 3152519739159347 / 4503599627370496)"
proof -
  have code: "assess_context (recorded_context context_behind_tired snapshot_behind_tired)
                steady_metrics steady_metrics
              = (False, 0.5, ''No significant improvement detected'')"
    by (simp add: assess_context_def pace_block_def hr_block_def zone_block_def
        recorded_context_behind_tired steady_metrics_values float_eval)
  have out: "fst (record_strategy_outcome engine_with_pending ''exec-1'' (Response 200 (Some ())))
               = Inr True"
    using engine_with_pending_entry
    by (simp add: record_strategy_outcome_def Let_def)
  have a: "fst (assess_strategy_effectiveness engine_with_pending (Response 200 (Some ()))
                 ''exec-1'' steady_metrics steady_metrics)
             = Inr (False, 0.5, ''No significant improvement detected'')"
    using engine_with_pending_entry out code
    by (cases "record_strategy_outcome engine_with_pending ''exec-1'' (Response 200 (Some ()))")
       (simp add: assess_strategy_effectiveness_def)
  have r: "reference_assessment (recorded_context context_behind_tired snapshot_behind_tired)
             steady_metrics steady_metrics = (True, 3152519739159347 / 4503599627370496)"
    by (simp add: reference_assessment_def reference_pace_improved_def
        reference_pace_stabilized_def reference_hr_stabilized_def zone_lowered_def
        target_was_behind_def fatigue_was_high_def hr_was_rising_def zone_was_too_high_def
        add_if_def recorded_context_behind_tired steady_metrics_values float_eval)
  show ?thesis using context_behind_tired_eq a r by simp
qed

text \<open>
  The amended rule at work on the same pending entry: the pace goes from 5.4 to 5.35, whose
  float difference -0.05000000000000071 is below -0.05, and the result is True with the
  score 0.5 + 0.3 (the double 0.8) and the reason "Pace improved".
\<close>

theorem assess_amended_rule_witness:
  "pending_executions engine_with_pending ''exec-1'' \<noteq> None
   \<and> supabase_key engine_with_pending \<noteq> None
   \<and> fst (assess_strategy_effectiveness engine_with_pending (Response 200 (Some ()))
            ''exec-1'' (pace_metrics 5.4) (pace_metrics 5.35))
       = Inr (True, 3602879701896397 / 4503599627370496, ''Pace improved'')"
proof -
  have v: "amended_assessment (recorded_context context_behind_tired snapshot_behind_tired)
             (pace_metrics 5.4) (pace_metrics 5.35)
           = (True, 3602879701896397 / 4503599627370496, ''Pace improved'')"
    by (simp add: amended_assessment_def amended_labels_def amended_pace_improved_def
        amended_pace_stabilized_def amended_hr_stabilized_def zone_lowered_def
        target_was_behind_def fatigue_was_high_def hr_was_rising_def zone_was_too_high_def
        add_if_def recorded_context_behind_tired pace_metrics_def metric_def float_eval)
  from assess_amended_rule [of engine_with_pending "Response 200 (Some ())" "''exec-1''"
      "pace_metrics 5.4" "pace_metrics 5.35"] engine_with_pending_entry v
  show ?thesis by simp
qed

text \<open>
  C10. Whatever the execution id and the metric pairs, a score returned by
  \<open>assess_strategy_effectiveness\<close> lies in [0, 1]. The operation returns a triple unless
  the execution is pending on an engine with a URL whose \<open>supabase_key\<close> attribute does
  not exist, where recording the outcome raises.
\<close>

theorem effectiveness_score_bounded:
  "(case fst (assess_strategy_effectiveness eng reply execution_id b a) of
      Inr (eff, score, reason) \<Rightarrow> 0 \<le> score \<and> score \<le> 1
    | Inl e \<Rightarrow> e = AttributeError ''supabase_key'' \<and> supabase_key eng = None
               \<and> supabase_url eng \<noteq> [] \<and> pending_executions eng execution_id \<noteq> None)"
proof (cases "pending_executions eng execution_id")
  case None
  then show ?thesis by (simp add: assess_strategy_effectiveness_def)
next
  case (Some execution)
  obtain res eng' where ro: "record_strategy_outcome eng execution_id reply = (res, eng')"
    by (cases "record_strategy_outcome eng execution_id reply")
  obtain eff score reason where
    ac: "assess_context (execution_context execution) b a = (eff, score, reason)"
    by (cases "assess_context (execution_context execution) b a")
  show ?thesis
  proof (cases res)
    case (Inl e)
    with ro have "fst (record_strategy_outcome eng execution_id reply) = Inl e" by simp
    from record_strategy_outcome_cases [OF this] Some ro Inl show ?thesis
      by (simp add: assess_strategy_effectiveness_def)
  next
    case (Inr ok)
    with Some ro ac assess_context_bounds [OF ac] show ?thesis
      by (simp add: assess_strategy_effectiveness_def)
  qed
qed

lemma get_adaptive_strategy_pending:
  "pending_executions (snd (get_adaptive_strategy eng perf pers energy user_id run_id reply))
     = pending_executions eng"
  by (simp add: get_adaptive_strategy_def get_client_def Let_def
      split: sum.splits http_reply.splits option.splits)

lemma record_strategy_outcome_pending_empty:
  "pending_executions eng = Map.empty \<Longrightarrow>
     pending_executions (snd (record_strategy_outcome eng execution_id reply)) = Map.empty"
  by (auto simp: record_strategy_outcome_def get_client_def Let_def
      split: option.splits http_reply.splits)

lemma assess_pending_empty:
  "pending_executions eng = Map.empty \<Longrightarrow>
     assess_strategy_effectiveness eng reply execution_id b a
       = (Inr (False, 0, ''Execution not found''), eng)"
  by (simp add: assess_strategy_effectiveness_def)

lemma reachable_pending_empty:
  "reachable eng \<Longrightarrow> pending_executions eng = Map.empty"
proof (induction rule: reachable.induct)
  case (constructed url_arg key_arg environ)
  show ?case by (simp add: CoachRAGEngine_init_def Let_def)
next
  case (delivered eng perf pers energy user_id run_id reply)
  then show ?case by (simp add: get_adaptive_strategy_pending)
next
  case (outcome_recorded eng execution_id oreply)
  then show ?case by (simp add: record_strategy_outcome_pending_empty)
next
  case (assessed eng oreply execution_id b a)
  then show ?case by (simp add: assess_pending_empty)
next
  case (client_opened eng)
  then show ?case by (simp add: get_client_def)
next
  case (closed eng)
  then show ?case by (simp add: close_engine_def)
qed

text \<open>
  C2. \<open>get_adaptive_strategy\<close> leaves the pending-execution store as it was. In every
  engine state reached from the constructor through the public operations the store is
  empty, so assessing an execution id attached to a delivered output returns the
  not-found triple (False, 0.0, "Execution not found") and changes nothing.
\<close>

theorem delivery_never_records:
  "pending_executions (snd (get_adaptive_strategy eng perf pers energy user_id run_id reply))
     = pending_executions eng
   \<and> (reachable eng \<longrightarrow>
        (\<forall>out x. fst (get_adaptive_strategy eng perf pers energy user_id run_id reply) = Inr out
             \<longrightarrow> out_execution_id out = Some x
             \<longrightarrow> assess_strategy_effectiveness
                   (snd (get_adaptive_strategy eng perf pers energy user_id run_id reply))
                   oreply x b a
                 = (Inr (False, 0, ''Execution not found''),
                    snd (get_adaptive_strategy eng perf pers energy user_id run_id reply))))"
proof (intro conjI impI allI)
  show "pending_executions (snd (get_adaptive_strategy eng perf pers energy user_id run_id reply))
          = pending_executions eng"
    by (rule get_adaptive_strategy_pending)
next
  fix out x
  assume "reachable eng"
  then have "reachable (snd (get_adaptive_strategy eng perf pers energy user_id run_id reply))"
    by (rule reachable.delivered)
  then have "pending_executions
               (snd (get_adaptive_strategy eng perf pers energy user_id run_id reply)) = Map.empty"
    by (rule reachable_pending_empty)
  then show "assess_strategy_effectiveness
               (snd (get_adaptive_strategy eng perf pers energy user_id run_id reply)) oreply x b a
             = (Inr (False, 0, ''Execution not found''),
                snd (get_adaptive_strategy eng perf pers energy user_id run_id reply))"
    by (rule assess_pending_empty)
qed

lemma engine_constructed_fields:
  "supabase_url engine_constructed = ''https://project.supabase.co''
   \<and> supabase_anon_key engine_constructed = ''anon-key''
   \<and> supabase_key engine_constructed = None
   \<and> openai_key engine_constructed = None
   \<and> mem0_api_key engine_constructed = None
   \<and> pending_executions engine_constructed = Map.empty"
  by (simp add: engine_constructed_def CoachRAGEngine_init_def arg_or_env_def Let_def)

lemma snapshot_default_context:
  "build_situation_context snapshot_default STRATEGIST ENERGY_MEDIUM =
     Inr \<lparr> ctx_pace_trend = PACE_STABLE, ctx_hr_trend = HR_STABLE,
           ctx_fatigue_level = FATIGUE_NONE, ctx_target_status = ON_TRACK,
           cardiac_drift = False, zone_too_high = False, injury_risk = False,
           form_breakdown = False, push_possible = True, recovery_needed = False,
           personality = STRATEGIST, energy_level = ENERGY_MEDIUM,
           situation_tags = [''pace_stable'', ''hr_stable'', ''target_on_track'',
                             ''push_possible''] \<rparr>"
  by (simp add: build_situation_context_def push_possible_expr_def snapshot_default_def
      build_tags_def zone_pct_def Let_def)

theorem delivery_never_records_witness:
  "reachable engine_constructed
   \<and> (\<exists>out. fst (get_adaptive_strategy engine_constructed snapshot_default STRATEGIST
                   ENERGY_MEDIUM ''user-1'' None
                   (Response 200 (Some (Some strategy_with_execution_id)))) = Inr out
          \<and> out_execution_id out = Some ''exec-1'')
   \<and> fst (assess_strategy_effectiveness
            (snd (get_adaptive_strategy engine_constructed snapshot_default STRATEGIST
                    ENERGY_MEDIUM ''user-1'' None
                    (Response 200 (Some (Some strategy_with_execution_id)))))
            (Response 200 (Some ())) ''exec-1'' steady_metrics steady_metrics)
       = Inr (False, 0, ''Execution not found'')"
proof -
  have r: "reachable engine_constructed"
    unfolding engine_constructed_def by (rule reachable.constructed)
  have d: "fst (get_adaptive_strategy engine_constructed snapshot_default STRATEGIST
                  ENERGY_MEDIUM ''user-1'' None
                  (Response 200 (Some (Some strategy_with_execution_id))))
           = Inr (edge_output
                    (projr (build_situation_context snapshot_default STRATEGIST ENERGY_MEDIUM))
                    (Some strategy_with_execution_id))"
    using engine_constructed_fields
    by (simp add: get_adaptive_strategy_def snapshot_default_context Let_def)
  have x: "out_execution_id
             (edge_output
                (projr (build_situation_context snapshot_default STRATEGIST ENERGY_MEDIUM))
                (Some strategy_with_execution_id)) = Some ''exec-1''"
    by (simp add: edge_output_def get_or_def strategy_with_execution_id_def
        empty_strategy_data_def Let_def)
  from delivery_never_records [of engine_constructed snapshot_default STRATEGIST ENERGY_MEDIUM
      "''user-1''" None "Response 200 (Some (Some strategy_with_execution_id))"
      "Response 200 (Some ())" steady_metrics steady_metrics] r d x
  show ?thesis by simp
qed

lemma build_situation_context_error:
  "build_situation_context perf pers energy = Inl e \<Longrightarrow> e = ZeroDivisionError"
  by (auto simp: build_situation_context_def push_possible_expr_def Let_def
      split: if_splits option.splits sum.splits)

text \<open>
  The two parts of C7 that hold: the configuration error is raised exactly when the URL or
  the anon key is empty, and a failing Edge Function call is absorbed into the fallback
  output (confidence 0.5, no execution id) whenever the context builder succeeds.
\<close>

lemma configuration_error_iff:
  "(fst (get_adaptive_strategy eng perf pers energy user_id run_id reply)
      = Inl (ValueError ''Supabase URL and anon key required for Edge Function''))
   = (supabase_url eng = [] \<or> supabase_anon_key eng = [])"
  by (auto simp: get_adaptive_strategy_def Let_def dest: build_situation_context_error
      split: sum.splits http_reply.splits option.splits)

lemma collaborator_failure_absorbed:
  assumes "supabase_url eng \<noteq> []" and "supabase_anon_key eng \<noteq> []"
    and "build_situation_context perf pers energy = Inr c"
    and "reply = Raises \<or> (\<exists>status body. reply = Response status body \<and> status \<noteq> 200)"
  shows "fst (get_adaptive_strategy eng perf pers energy user_id run_id reply)
           = Inr (fallback_output c)
         \<and> out_confidence_score (fallback_output c) = 0.5
         \<and> out_execution_id (fallback_output c) = None"
  using assms by (auto simp: get_adaptive_strategy_def Let_def fallback_output_def)

text \<open>
  C7. With the configuration present, a snapshot whose maximum heart rate is 0 makes
  \<open>get_adaptive_strategy\<close> raise \<open>ZeroDivisionError\<close>: the context is built outside the
  \<open>try\<close> block, so an exception other than the configuration error leaves the
  operation (here with a failing Edge Function call, which is never reached).
\<close>

theorem get_adaptive_strategy_zero_max_hr:
  "get_adaptive_strategy engine_constructed snapshot_zero_max_hr STRATEGIST ENERGY_MEDIUM
     ''user-1'' None Raises
   = (Inl ZeroDivisionError, engine_constructed)"
proof -
  have "build_situation_context snapshot_zero_max_hr STRATEGIST ENERGY_MEDIUM
          = Inl ZeroDivisionError"
    by (simp add: build_situation_context_def push_possible_expr_def snapshot_zero_max_hr_def
        snapshot_default_def zone_pct_def)
  then show ?thesis
    using engine_constructed_fields by (simp add: get_adaptive_strategy_def)
qed

lemma set_sorted_desc [simp]: "set (sorted_desc key xs) = set xs"
  by (simp add: sorted_desc_def)

lemma length_sorted_desc [simp]: "length (sorted_desc key xs) = length xs"
  by (simp add: sorted_desc_def)

lemma fallback_rank_ids: "set (map kb_id (fallback_rank kb)) \<subseteq> set (map kb_id kb)"
  unfolding fallback_rank_def
  using set_take_subset [of 8 "sorted_desc rate_key kb"] by auto

lemma fallback_rank_length: "length (fallback_rank kb) \<le> 8"
  by (simp add: fallback_rank_def)

lemma attach_matches_ids: "kb_id ` set (attach_matches lookup kb) \<subseteq> kb_id ` set kb"
  by (induction kb) (auto split: option.splits)

lemma attach_matches_matched:
  "s \<in> set (attach_matches lookup kb) \<Longrightarrow> lookup (kb_id s) \<noteq> None"
  by (induction kb) (auto split: option.splits)

lemma match_lookup_sound:
  "match_lookup ms acc = Inr lookup \<Longrightarrow> lookup i = Some m \<Longrightarrow>
     acc i = Some m \<or> (m \<in> set ms \<and> m_id m = Some i \<and> m_match m = Some True)"
proof (induction ms arbitrary: acc)
  case Nil
  then show ?case by simp
next
  case (Cons x xs)
  show ?case
  proof (cases "get_or (m_match x) False")
    case True
    then obtain j where j: "m_id x = Some j"
      using Cons.prems(1) by (cases "m_id x") auto
    with True Cons.prems(1) have "match_lookup xs (acc(j \<mapsto> x)) = Inr lookup" by simp
    from Cons.IH [OF this Cons.prems(2)] j True show ?thesis
      by (auto simp: get_or_def split: if_splits option.splits)
  next
    case False
    with Cons.prems(1) have "match_lookup xs acc = Inr lookup" by simp
    from Cons.IH [OF this Cons.prems(2)] show ?thesis by auto
  qed
qed

text \<open>
  The parts of C8 that hold whenever the reranker returns: its result has ids of the input
  candidates and at most 8 elements; with an empty key or undecodable content it is the
  fallback ranking; on the success path a returned candidate has a match result with
  match = true under its id.
\<close>

lemma llm_match_conditions_bounds:
  assumes "llm_match_conditions eng kb reply = Inr res"
  shows "set (map kb_id res) \<subseteq> set (map kb_id kb) \<and> length res \<le> 8"
proof -
  have fb: "res = fallback_rank kb \<Longrightarrow> ?thesis"
    using fallback_rank_ids [of kb] fallback_rank_length [of kb] by simp
  have ok: "res = take 8 (sorted_desc match_key (attach_matches lookup kb)) \<Longrightarrow> ?thesis"
    for lookup
    using set_take_subset [of 8 "sorted_desc match_key (attach_matches lookup kb)"]
      attach_matches_ids [of lookup kb] by auto
  from assms fb ok show ?thesis
    by (auto simp: llm_match_conditions_def
        split: option.splits if_splits http_reply.splits llm_content.splits sum.splits
        simp del: set_map)
qed

lemma engine_with_openai_key_fields:
  "openai_key engine_with_openai_key = Some ''sk-test''"
  by (simp add: engine_with_openai_key_def)

lemma fallback_rank_two_candidates:
  "fallback_rank two_candidates = [candidate ''b'' 0.8 10, candidate ''a'' 0.2 3]"
  by (simp add: fallback_rank_def sorted_desc_def two_candidates_def rate_key_def candidate_def
      get_or_def less_eq_prod_def)

text \<open>
  C6. A bare JSON array of match results is not treated as a successful parse. With the
  candidates a (success rate 0.2) and b (success rate 0.8) and the bare array
  [a: match, score 0.9; b: no match], the reranker discards the match results and returns
  the fallback ranking [b, a] without scores; the specification asks for [a] with
  score 0.9, which is what the same list gives when an object wraps it.
\<close>

theorem bare_array_discarded:
  "llm_match_conditions engine_with_openai_key two_candidates
       (Response 200 (Some (JsonArray bare_array_answer)))
     = Inr [candidate ''b'' 0.8 10, candidate ''a'' 0.2 3]
   \<and> rerank_with_matches bare_array_answer two_candidates
     = [(candidate ''a'' 0.2 3)\<lparr> kb_match_score := Some 0.9,
                                 kb_match_reason := Some ''conditions apply'' \<rparr>]
   \<and> llm_match_conditions engine_with_openai_key two_candidates
       (Response 200 (Some (JsonObject (Some bare_array_answer))))
     = Inr (rerank_with_matches bare_array_answer two_candidates)"
proof -
  have k: "two_candidates \<noteq> []" by (simp add: two_candidates_def)
  have a: "llm_match_conditions engine_with_openai_key two_candidates
             (Response 200 (Some (JsonArray bare_array_answer)))
           = Inr (fallback_rank two_candidates)"
    using k by (simp add: llm_match_conditions_def engine_with_openai_key_fields)
  have l: "match_lookup bare_array_answer Map.empty
           = Inr [''a'' \<mapsto> \<lparr> m_id = Some ''a'', m_match = Some True, m_match_score = Some 0.9,
                               m_reason = Some ''conditions apply'' \<rparr>]"
    by (simp add: bare_array_answer_def get_or_def)
  have r: "rerank_with_matches bare_array_answer two_candidates
           = [(candidate ''a'' 0.2 3)\<lparr> kb_match_score := Some 0.9,
                                       kb_match_reason := Some ''conditions apply'' \<rparr>]"
    by (simp add: rerank_with_matches_def l two_candidates_def candidate_def sorted_desc_def
        get_or_def)
  have w: "llm_match_conditions engine_with_openai_key two_candidates
             (Response 200 (Some (JsonObject (Some bare_array_answer))))
           = Inr (rerank_with_matches bare_array_answer two_candidates)"
    using k by (simp add: llm_match_conditions_def engine_with_openai_key_fields
        rerank_with_matches_def l get_or_def)
  show ?thesis using a r w fallback_rank_two_candidates by simp
qed

text \<open>
  C8. On every engine built by the constructor, whose language-model collaborator is
  therefore unconfigured, the reranker raises \<open>AttributeError\<close> for every candidate list
  instead of returning the top 8 of the fallback ranking: \<open>__init__\<close> never assigns
  \<open>openai_key\<close>.
\<close>

theorem reranker_unconfigured_raises:
  "llm_match_conditions (CoachRAGEngine_init url_arg key_arg environ) kb_strategies reply
     = Inl (AttributeError ''openai_key'')"
  by (simp add: llm_match_conditions_def CoachRAGEngine_init_def Let_def)

lemma llm_match_conditions_fallback:
  assumes "openai_key eng = Some k"
    and "k = [] \<or> reply = Response 200 (Some NotJson)"
  shows "llm_match_conditions eng kb reply = Inr (fallback_rank kb)"
  using assms by (auto simp: llm_match_conditions_def)

lemma llm_match_conditions_drops_absent:
  assumes "openai_key eng = Some k" and "k \<noteq> []"
    and "llm_match_conditions eng kb (Response 200 (Some (JsonObject (Some ms)))) = Inr res"
    and "match_lookup ms Map.empty = Inr lookup"
    and "s \<in> set res"
  shows "\<exists>m \<in> set ms. m_id m = Some (kb_id s) \<and> m_match m = Some True"
proof -
  have kb: "kb \<noteq> []"
  proof
    assume "kb = []"
    with assms(1,3) have "res = []" by (simp add: llm_match_conditions_def fallback_rank_def sorted_desc_def)
    with assms(5) show False by simp
  qed
  with assms(1-4) have "res = take 8 (sorted_desc match_key (attach_matches lookup kb))"
    by (simp add: llm_match_conditions_def get_or_def)
  with assms(5) have "s \<in> set (attach_matches lookup kb)"
    using set_take_subset [of 8 "sorted_desc match_key (attach_matches lookup kb)"] by auto
  then obtain m where "lookup (kb_id s) = Some m"
    using attach_matches_matched by fastforce
  from match_lookup_sound [OF assms(4) this] show ?thesis by auto
qed

lemma llm_match_conditions_cache:
  "llm_match_conditions (eng\<lparr> strategy_cache := sc, cache_timestamps := ts \<rparr>) kb reply
     = llm_match_conditions eng kb reply"
  by (simp add: llm_match_conditions_def)

lemma query_kb_fallback_cache:
  "query_kb_fallback (eng\<lparr> strategy_cache := sc, cache_timestamps := ts \<rparr>) d l n reply
     = query_kb_fallback eng d l n reply"
  by (simp add: query_kb_fallback_def)

lemma refine_candidates_cache:
  "refine_candidates (eng\<lparr> strategy_cache := sc, cache_timestamps := ts \<rparr>) c emb collab kb
     = refine_candidates eng c emb collab kb"
  by (simp add: refine_candidates_def llm_match_conditions_cache)

lemma retrieve_with_embedding_cache:
  "retrieve_with_embedding (eng\<lparr> strategy_cache := sc, cache_timestamps := ts \<rparr>) c d l emb collab
     = retrieve_with_embedding eng c d l emb collab"
  by (simp add: retrieve_with_embedding_def query_kb_fallback_cache refine_candidates_cache
      Let_def split: http_reply.splits option.splits)

lemma retrieve_strategies_cache:
  "retrieve_strategies (eng\<lparr> strategy_cache := sc, cache_timestamps := ts \<rparr>) c u perf describe collab
     = retrieve_strategies eng c u perf describe collab"
  by (simp add: retrieve_strategies_def retrieve_with_embedding_cache Let_def
      split: option.splits)

lemma retrieve_with_embedding_first_call:
  "embedding_given emb \<Longrightarrow>
     \<exists>calls. snd (retrieve_with_embedding eng c d l emb collab) = VectorSearch d l 0.65 15 # calls"
  by (auto simp: retrieve_with_embedding_def Let_def
      split: http_reply.splits option.splits prod.splits)

lemma retrieve_strategies_calls:
  assumes "supabase_url eng \<noteq> []" and "supabase_key eng = Some k" and "k \<noteq> []"
  shows "\<exists>found. retrieve_strategies eng c u perf describe collab
           = Inr (found, [KbQuery (get_distance_category (target_distance perf))
                             (get_runner_level perf) 15])"
  using assms
  by (simp add: retrieve_strategies_def retrieve_with_embedding_def generate_embedding_def
      embedding_given_def query_kb_fallback_def Let_def)

lemma engine_with_cache_fields:
  "supabase_url engine_with_cache = ''https://project.supabase.co''
   \<and> supabase_key engine_with_cache = Some ''service-key''
   \<and> openai_key engine_with_cache = None
   \<and> cache_ttl engine_with_cache = 300
   \<and> strategy_cache engine_with_cache ''5k_advanced'' = Some [cached_strategy]
   \<and> cache_timestamps engine_with_cache ''5k_advanced'' = Some 1000"
  by (simp add: engine_with_cache_def engine_with_service_key_def engine_constructed_def
      CoachRAGEngine_init_def arg_or_env_def Let_def)

text \<open>
  C3 as stated fails. The cache holds a list under every key, stored 100 seconds before the
  request; retrieval still queries the knowledge base and, the query failing, returns the
  static default strategy, not the cached list.
\<close>

theorem retrieval_cache_counterexample:
  "cache_hit engine_with_cache ''5k_advanced'' 1100 = Some [cached_strategy]
   \<and> retrieve_strategies engine_with_cache context_default ''user-1'' snapshot_default
        plain_description failing_collaborators
     = Inr ([static_strategy ''fallback-default'' ''Maintain Pace''
               ''Hold current pace. Stay in Zone 3. Steady breathing. You're doing well.''
               [''pace_stable'']],
            [KbQuery ''5k'' ''advanced'' 15])
   \<and> static_strategy ''fallback-default'' ''Maintain Pace''
        ''Hold current pace. Stay in Zone 3. Steady breathing. You're doing well.''
        [''pace_stable''] \<noteq> cached_strategy"
proof -
  have h: "cache_hit engine_with_cache ''5k_advanced'' 1100 = Some [cached_strategy]"
    using engine_with_cache_fields by (simp add: cache_hit_def)
  have d: "get_distance_category (target_distance snapshot_default) = ''5k''"
    by (simp add: get_distance_category_def snapshot_default_def)
  have l: "get_runner_level snapshot_default = ''advanced''"
    by (simp add: get_runner_level_def snapshot_default_def)
  have f: "get_fallback_strategies context_default
           = [static_strategy ''fallback-default'' ''Maintain Pace''
               ''Hold current pace. Stay in Zone 3. Steady breathing. You're doing well.''
               [''pace_stable'']]"
    by (simp add: get_fallback_strategies_def context_default_def)
  have r: "retrieve_strategies engine_with_cache context_default ''user-1'' snapshot_default
             plain_description failing_collaborators
           = Inr (get_fallback_strategies context_default, [KbQuery ''5k'' ''advanced'' 15])"
    using engine_with_cache_fields
    by (simp add: retrieve_strategies_def retrieve_with_embedding_def generate_embedding_def
        embedding_given_def query_kb_fallback_def refine_candidates_def
        failing_collaborators_def d l Let_def)
  have n: "static_strategy ''fallback-default'' ''Maintain Pace''
        ''Hold current pace. Stay in Zone 3. Steady breathing. You're doing well.''
        [''pace_stable''] \<noteq> cached_strategy"
    by (simp add: static_strategy_def cached_strategy_def)
  show ?thesis using h r f n by simp
qed

text \<open>
  C3 (as amended). Strategy retrieval does not consult the cache: whatever the cache and
  its timestamps hold, the candidates returned and the retrieval calls made are the same.
  With the store configured it goes to the collaborator at once: the embedding stub gives
  no embedding, so the one retrieval call is the non-vector query with limit 15; given an
  embedding, the first call is the vector search with a 0.65 similarity floor requesting
  the top 15.
\<close>

theorem retrieval_ignores_cache:
  "retrieve_strategies (eng\<lparr> strategy_cache := sc, cache_timestamps := ts \<rparr>) c u perf
       describe collab
     = retrieve_strategies eng c u perf describe collab
   \<and> (supabase_url eng \<noteq> [] \<longrightarrow> supabase_key eng = Some k \<longrightarrow> k \<noteq> [] \<longrightarrow>
        (\<exists>found. retrieve_strategies eng c u perf describe collab
           = Inr (found, [KbQuery (get_distance_category (target_distance perf))
                             (get_runner_level perf) 15])))
   \<and> (embedding_given emb \<longrightarrow>
        (\<exists>calls. snd (retrieve_with_embedding eng c d l emb collab)
           = VectorSearch d l 0.65 15 # calls))"
proof (intro conjI impI)
  show "retrieve_strategies (eng\<lparr> strategy_cache := sc, cache_timestamps := ts \<rparr>) c u perf
          describe collab
        = retrieve_strategies eng c u perf describe collab"
    by (rule retrieve_strategies_cache)
next
  assume "supabase_url eng \<noteq> []" "supabase_key eng = Some k" "k \<noteq> []"
  then show "\<exists>found. retrieve_strategies eng c u perf describe collab
           = Inr (found, [KbQuery (get_distance_category (target_distance perf))
                             (get_runner_level perf) 15])"
    by (rule retrieve_strategies_calls)
next
  assume "embedding_given emb"
  from retrieve_with_embedding_first_call [OF this, of eng c d l collab]
  show "\<exists>calls. snd (retrieve_with_embedding eng c d l emb collab)
           = VectorSearch d l 0.65 15 # calls"
    by simp
qed

theorem retrieval_ignores_cache_witness:
  "supabase_url engine_with_service_key \<noteq> []
   \<and> supabase_key engine_with_service_key = Some ''service-key''
   \<and> embedding_given (Some [0.1, 0.2])
   \<and> retrieve_strategies engine_with_cache context_default ''user-1'' snapshot_default
        plain_description failing_collaborators
     = retrieve_strategies engine_with_service_key context_default ''user-1'' snapshot_default
        plain_description failing_collaborators
   \<and> (\<exists>found. retrieve_strategies engine_with_service_key context_default ''user-1''
                 snapshot_default plain_description failing_collaborators
          = Inr (found, [KbQuery ''5k'' ''advanced'' 15]))
   \<and> (\<exists>calls. snd (retrieve_with_embedding engine_with_service_key context_default
                      ''5k'' ''advanced'' (Some [0.1, 0.2]) failing_collaborators)
          = VectorSearch ''5k'' ''advanced'' 0.65 15 # calls)"
proof -
  have e: "supabase_url engine_with_service_key \<noteq> []"
       "supabase_key engine_with_service_key = Some ''service-key''"
    by (simp_all add: engine_with_service_key_def engine_constructed_def
        CoachRAGEngine_init_def arg_or_env_def Let_def)
  have g: "embedding_given (Some [0.1, 0.2])" by (simp add: embedding_given_def)
  have d: "get_distance_category (target_distance snapshot_default) = ''5k''"
    by (simp add: get_distance_category_def snapshot_default_def)
  have l: "get_runner_level snapshot_default = ''advanced''"
    by (simp add: get_runner_level_def snapshot_default_def)
  from retrieval_ignores_cache [where eng = engine_with_service_key
      and sc = "\<lambda>key. Some [cached_strategy]" and ts = "\<lambda>key. Some 1000"
      and c = context_default and u = "''user-1''" and perf = snapshot_default
      and describe = plain_description and collab = failing_collaborators
      and k = "''service-key''" and emb = "Some [0.1, 0.2]" and d = "''5k''"
      and l = "''advanced''"]
    e g d l
  show ?thesis by (simp add: engine_with_cache_def)
qed

text \<open>
  C4. On every engine built by the constructor, which has no memory-service API key, the
  memory fetcher raises \<open>AttributeError\<close> for every user and context instead of
  returning an empty list: \<open>__init__\<close> never assigns \<open>mem0_api_key\<close>.
\<close>

theorem memory_fetcher_unconfigured_raises:
  "fetch_mem0_coaching_memories (CoachRAGEngine_init url_arg key_arg environ) user_id c search
     = Inl (AttributeError ''mem0_api_key'')"
  by (simp add: fetch_mem0_coaching_memories_def CoachRAGEngine_init_def Let_def)

text \<open>
  The part of C4 that holds when the key attribute exists: an empty key, or calls that all
  fail, give the empty list.
\<close>

lemma fetch_queries_all_fail:
  "\<forall>q \<in> set queries. search q = Raises \<or> (\<exists>status body. search q = Response status body \<and> status \<noteq> 200)
     \<Longrightarrow> fetch_queries search queries memories = memories"
  by (induction queries arbitrary: memories) auto

lemma memory_fetcher_empty:
  assumes "mem0_api_key eng = Some k"
    and "k = [] \<or> (\<forall>q. search q = Raises \<or> (\<exists>status body. search q = Response status body \<and> status \<noteq> 200))"
  shows "fetch_mem0_coaching_memories eng user_id c search = Inr []"
proof (cases "k = []")
  case True
  with assms(1) show ?thesis by (simp add: fetch_mem0_coaching_memories_def)
next
  case False
  with assms(2) have "fetch_queries search (take 3 (memory_queries c)) [] = []"
    by (intro fetch_queries_all_fail) auto
  with assms(1) False show ?thesis
    by (simp add: fetch_mem0_coaching_memories_def sorted_desc_def split: option.splits)
qed

text \<open>
  A call that fails after an earlier one succeeded ends the loop, and the memories of the
  earlier call are returned.
\<close>

lemma memory_fetcher_partial_failure:
  assumes "mem0_api_key eng = Some k" and "k \<noteq> []" and "mem0_base_url eng = Some base"
    and "search ''coaching strategies that worked well'' = Response 200 (Some (r # rs))"
    and "search (pace_trend_value (ctx_pace_trend c) @ '' pace coaching'') = Raises"
  shows "\<exists>m ms. fetch_mem0_coaching_memories eng user_id c search = Inr (m # ms)"
proof -
  have f: "fetch_queries search (take 3 (memory_queries c)) [] = map to_memory (r # rs)"
    using assms(4,5) by (simp add: memory_queries_def)
  have "length (sorted_desc relevance_score (map to_memory (r # rs))) = Suc (length rs)"
    by simp
  then have "sorted_desc relevance_score (map to_memory (r # rs)) \<noteq> []"
    by (metis length_0_conv nat.distinct(1))
  then obtain x xs where s: "sorted_desc relevance_score (map to_memory (r # rs)) = x # xs"
    by (cases "sorted_desc relevance_score (map to_memory (r # rs))") auto
  show ?thesis
    using assms(1-3) f s by (simp add: fetch_mem0_coaching_memories_def)
qed

end
